theory Spec2Isabelle
  imports Complex_Main
begin

section \<open>Conventions of the embedding\<close>

text \<open>
  The C++ class \<^verbatim>\<open>Dune::EclipseGridInspector\<close> is embedded function by function.
  \<^item> \<^verbatim>\<open>int\<close> values are modelled by \<^typ>\<open>int\<close>. Signed overflow is undefined in C++,
    so the model describes the executions in which no intermediate \<^verbatim>\<open>int\<close> leaves the
    32-bit range; integer \<^verbatim>\<open>/\<close> truncates towards zero and is written \<open>cdiv\<close>.
  \<^item> \<^verbatim>\<open>double\<close> values are modelled by \<^typ>\<open>real\<close>: finite values with exact
    arithmetic. A division does not fail in C++: when its divisor is zero IEEE gives an
    infinity or a NaN. The quotients of \<open>cellDips\<close> and what is computed from them
    are therefore values of the type \<open>double\<close> below, which are finite or not.
  \<^item> Every \<^verbatim>\<open>throw\<close> is a value \<open>Inl e\<close> of the result type \<open>error + 'a\<close>.
  \<^item> \<^verbatim>\<open>std::vector::operator[]\<close> is unchecked. A read outside the vector, the
    dereference of \<^verbatim>\<open>end()\<close> and an integer division by zero are undefined behaviour;
    the model reports them as \<open>UndefinedBehaviour\<close>.
\<close>

datatype error =
    NeededFieldMissing
  | NoDimensionSource
  | FirstCoordOutOfBounds
  | SecondCoordOutOfBounds
  | ThirdCoordOutOfBounds
  | WrongSizeCOORD
  | WrongSizeZCORN
  | GridLimitsFieldMissing
  | NoSuchField
  | UndefinedBehaviour

definition bind_err :: "error + 'a \<Rightarrow> ('a \<Rightarrow> error + 'b) \<Rightarrow> error + 'b" where
  "bind_err m f = (case m of Inl e \<Rightarrow> Inl e | Inr x \<Rightarrow> f x)"

text \<open>An unchecked read \<^verbatim>\<open>v[i]\<close> of a vector.\<close>

definition vec_at :: "'a list \<Rightarrow> int \<Rightarrow> error + 'a" where
  "vec_at v i = (if 0 \<le> i \<and> i < int (length v) then Inr (v ! nat i) else Inl UndefinedBehaviour)"

text \<open>The reads of a braced initialiser, done from left to right.\<close>

fun vec_reads :: "'a list \<Rightarrow> int list \<Rightarrow> error + 'a list" where
  "vec_reads v [] = Inr []"
| "vec_reads v (i # ixs) =
     bind_err (vec_at v i) (\<lambda>x. bind_err (vec_reads v ixs) (\<lambda>xs. Inr (x # xs)))"

text \<open>Integer division of C++: the quotient is truncated towards zero.\<close>

definition cdiv :: "int \<Rightarrow> int \<Rightarrow> int" where
  "cdiv a b = (if (a < 0) = (b < 0) then \<bar>a\<bar> div \<bar>b\<bar> else - (\<bar>a\<bar> div \<bar>b\<bar>))"

text \<open>
  The value of a floating-point expression that contains a division: a finite number,
  or a value that is not finite (an infinity or a NaN; the model does not tell them
  apart). \<open>ddiv x d\<close> is \<^verbatim>\<open>x / d\<close> for a finite divisor \<open>d\<close>: a finite number
  divided by zero is an infinity or a NaN, and an infinity or a NaN divided by a finite
  number is one again. \<open>dadd x y\<close> is \<^verbatim>\<open>x + y\<close>: a sum with an infinity or a NaN
  is an infinity or a NaN.
\<close>

datatype double = Finite real | NotFinite

definition ddiv :: "double \<Rightarrow> real \<Rightarrow> double" where
  "ddiv x d =
     (case x of
        Finite n \<Rightarrow> (if d = 0 then NotFinite else Finite (n / d))
      | NotFinite \<Rightarrow> NotFinite)"

definition dadd :: "double \<Rightarrow> double \<Rightarrow> double" where
  "dadd x y =
     (case x of
        Finite a \<Rightarrow> (case y of Finite b \<Rightarrow> Finite (a + b) | NotFinite \<Rightarrow> NotFinite)
      | NotFinite \<Rightarrow> NotFinite)"

text \<open>The constant \<^verbatim>\<open>DBL_MAX\<close> of \<^verbatim>\<open><cfloat>\<close>: the largest finite double.\<close>

definition DBL_MAX :: real where
  "DBL_MAX = (2 - 1 / 2 ^ 52) * 2 ^ 1023"

section \<open>The parser, as the inspector sees it\<close>

text \<open>
  Modelled from the spec: the class \<^verbatim>\<open>EclipseGridParser\<close> and the struct
  \<^verbatim>\<open>SPECGRID\<close> (EclipseGridParser.hpp, SpecialEclipseFields.hpp) are not part of the
  source at hand. The spec describes the collaborator as a store of named fields with
  \<^verbatim>\<open>hasField\<close>, \<^verbatim>\<open>hasFields\<close>, \<^verbatim>\<open>getFloatingPointValue\<close> and
  \<^verbatim>\<open>getIntegerValue\<close>, the last two failing when the field is absent, and a
  structured record with a 3-integer dimension field.
\<close>

record SPECGRID =
  dimensions :: "int list"

datatype field =
    IntegerField "int list"
  | FloatingPointField "real list"
  | SpecgridField SPECGRID

type_synonym EclipseGridParser = "string \<rightharpoonup> field"

text \<open>Modelled from the spec: \<^verbatim>\<open>hasField(name)\<close> tells whether the named field is present.\<close>

definition hasField :: "EclipseGridParser \<Rightarrow> string \<Rightarrow> bool" where
  "hasField p name = (p name \<noteq> None)"

text \<open>Modelled from the spec: \<^verbatim>\<open>hasFields(names)\<close> tells whether all the named fields are present.\<close>

definition hasFields :: "EclipseGridParser \<Rightarrow> string list \<Rightarrow> bool" where
  "hasFields p names = list_all (hasField p) names"

text \<open>
  Modelled from the spec: \<^verbatim>\<open>getFloatingPointValue(name)\<close> returns the sequence of
  doubles stored under the name and fails when there is none.
\<close>

definition getFloatingPointValue :: "EclipseGridParser \<Rightarrow> string \<Rightarrow> error + real list" where
  "getFloatingPointValue p name =
     (case p name of Some (FloatingPointField v) \<Rightarrow> Inr v | _ \<Rightarrow> Inl NoSuchField)"

text \<open>
  Modelled from the spec: \<^verbatim>\<open>getIntegerValue(name)\<close> returns the sequence of integers
  stored under the name and fails when there is none.
\<close>

definition getIntegerValue :: "EclipseGridParser \<Rightarrow> string \<Rightarrow> error + int list" where
  "getIntegerValue p name =
     (case p name of Some (IntegerField v) \<Rightarrow> Inr v | _ \<Rightarrow> Inl NoSuchField)"

text \<open>
  Modelled from the spec: \<^verbatim>\<open>getSPECGRID()\<close> returns the structured record stored
  under the name SPECGRID.
\<close>

definition getSPECGRID :: "EclipseGridParser \<Rightarrow> error + SPECGRID" where
  "getSPECGRID p =
     (case p ''SPECGRID'' of Some (SpecgridField s) \<Rightarrow> Inr s | _ \<Rightarrow> Inl NoSuchField)"

section \<open>The inspector\<close>

text \<open>
  The members \<^verbatim>\<open>parser_\<close> (a reference to the parser) and
  \<^verbatim>\<open>logical_gridsize_[3]\<close>.
\<close>

record EclipseGridInspector =
  parser :: EclipseGridParser
  logical_gridsize :: "int \<times> int \<times> int"

definition gridsize0 :: "EclipseGridInspector \<Rightarrow> int" where
  "gridsize0 insp = fst (logical_gridsize insp)"

definition gridsize1 :: "EclipseGridInspector \<Rightarrow> int" where
  "gridsize1 insp = fst (snd (logical_gridsize insp))"

definition gridsize2 :: "EclipseGridInspector \<Rightarrow> int" where
  "gridsize2 insp = snd (snd (logical_gridsize insp))"

subsection \<open>Constructor\<close>

definition new_EclipseGridInspector :: "EclipseGridParser \<Rightarrow> error + EclipseGridInspector" where
  "new_EclipseGridInspector p =
     (let keywords = [''COORD'', ''ZCORN''] in
      if \<not> hasFields p keywords then Inl NeededFieldMissing
      else if hasField p ''SPECGRID'' then
        bind_err (getSPECGRID p) (\<lambda>sgr.
        bind_err (vec_reads (dimensions sgr) [0, 1, 2]) (\<lambda>d.
          Inr \<lparr>parser = p, logical_gridsize = (d ! 0, d ! 1, d ! 2)\<rparr>))
      else if hasField p ''DIMENS'' then
        bind_err (getIntegerValue p ''DIMENS'') (\<lambda>dim.
        bind_err (vec_reads dim [0, 1, 2]) (\<lambda>d.
          Inr \<lparr>parser = p, logical_gridsize = (d ! 0, d ! 1, d ! 2)\<rparr>))
      else Inl NoDimensionSource)"

definition is_configuration_error :: "error \<Rightarrow> bool" where
  "is_configuration_error e = (e = NeededFieldMissing \<or> e = NoDimensionSource)"

subsection \<open>gridSize\<close>

definition gridSize :: "EclipseGridInspector \<Rightarrow> int list" where
  "gridSize insp = [gridsize0 insp, gridsize1 insp, gridsize2 insp]"

subsection \<open>checkLogicalCoords\<close>

definition checkLogicalCoords :: "EclipseGridInspector \<Rightarrow> int \<Rightarrow> int \<Rightarrow> int \<Rightarrow> error + unit" where
  "checkLogicalCoords insp i j k =
     (if i < 0 \<or> i \<ge> gridsize0 insp then Inl FirstCoordOutOfBounds
      else if j < 0 \<or> j \<ge> gridsize1 insp then Inl SecondCoordOutOfBounds
      else if k < 0 \<or> k \<ge> gridsize2 insp then Inl ThirdCoordOutOfBounds
      else Inr ())"

definition is_out_of_bounds_error :: "error \<Rightarrow> bool" where
  "is_out_of_bounds_error e =
     (e = FirstCoordOutOfBounds \<or> e = SecondCoordOutOfBounds \<or> e = ThirdCoordOutOfBounds)"

definition is_size_mismatch_error :: "error \<Rightarrow> bool" where
  "is_size_mismatch_error e = (e = WrongSizeCOORD \<or> e = WrongSizeZCORN)"

subsection \<open>cellIdxToLogicalCoords\<close>

text \<open>
  The two quotients are computed in the source as
  \<^verbatim>\<open>int(std::floor(((double)a)/((double)b)))\<close>. When the product of the first two grid
  sizes is zero the double division has no finite value and the later integer divisions
  divide by zero.
\<close>

definition cellIdxToLogicalCoords :: "EclipseGridInspector \<Rightarrow> int \<Rightarrow> error + int list" where
  "cellIdxToLogicalCoords insp cell_idx =
     (if gridsize0 insp * gridsize1 insp = 0 then Inl UndefinedBehaviour
      else
        let horIdx0 = (cell_idx + 1) -
              \<lfloor>real_of_int (cell_idx + 1) / real_of_int (gridsize0 insp * gridsize1 insp)\<rfloor> *
              gridsize0 insp * gridsize1 insp;
            horIdx = (if horIdx0 = 0 then gridsize0 insp * gridsize1 insp else horIdx0);
            i0 = horIdx - \<lfloor>real_of_int horIdx / real_of_int (gridsize0 insp)\<rfloor> * gridsize0 insp;
            i = (if i0 = 0 then gridsize1 insp else i0);
            j = cdiv (horIdx - i) (gridsize0 insp) + 1;
            k = cdiv ((cell_idx + 1) - gridsize0 insp * (j - 1) - 1)
                     (gridsize0 insp * gridsize1 insp) + 1
        in Inr [i - 1, j - 1, k - 1])"

subsection \<open>cellZvals\<close>

definition cellZvals :: "EclipseGridInspector \<Rightarrow> int \<Rightarrow> int \<Rightarrow> int \<Rightarrow> error + real list" where
  "cellZvals insp i j k =
     bind_err (getFloatingPointValue (parser insp) ''ZCORN'') (\<lambda>z.
       let num_cells = gridsize0 insp * gridsize1 insp * gridsize2 insp in
       if 8 * num_cells \<noteq> int (length z) then Inl WrongSizeZCORN
       else
         let delta0 = 1;
             delta1 = 2 * gridsize0 insp;
             delta2 = 4 * gridsize0 insp * gridsize1 insp;
             ix = 2 * (i * delta0 + j * delta1 + k * delta2)
         in vec_reads z [ix, ix + delta0,
                         ix + delta1, ix + delta1 + delta0,
                         ix + delta2, ix + delta2 + delta0,
                         ix + delta2 + delta1, ix + delta2 + delta1 + delta0])"

subsection \<open>cellDips\<close>

definition cellDips :: "EclipseGridInspector \<Rightarrow> int \<Rightarrow> int \<Rightarrow> int \<Rightarrow> error + double \<times> double" where
  "cellDips insp i j k =
     bind_err (checkLogicalCoords insp i j k) (\<lambda>_.
     bind_err (getFloatingPointValue (parser insp) ''COORD'') (\<lambda>pillc.
       let num_pillars = (gridsize0 insp + 1) * (gridsize1 insp + 1) in
       if 6 * num_pillars \<noteq> int (length pillc) then Inl WrongSizeCOORD
       else
     bind_err (getFloatingPointValue (parser insp) ''ZCORN'') (\<lambda>z.
       let num_cells = gridsize0 insp * gridsize1 insp * gridsize2 insp in
       if 8 * num_cells \<noteq> int (length z) then Inl WrongSizeZCORN
       else
     bind_err (cellZvals insp i j k) (\<lambda>cellz.
       let numxpill = gridsize0 insp + 1;
           pix = i + j * numxpill
       in
     bind_err (vec_reads pillc [6 * (pix + 1), 6 * pix]) (\<lambda>px.
       let cell_xlength = px ! 0 - px ! 1;
           xrise = [ddiv (Finite (cellz ! 1 - cellz ! 0)) cell_xlength,
                    ddiv (Finite (cellz ! 3 - cellz ! 2)) cell_xlength,
                    ddiv (Finite (cellz ! 5 - cellz ! 4)) cell_xlength,
                    ddiv (Finite (cellz ! 7 - cellz ! 6)) cell_xlength]
       in
     bind_err (vec_reads pillc [6 * (pix + numxpill) + 1, 6 * pix + 1]) (\<lambda>py.
       let cell_ylength = py ! 0 - py ! 1;
           yrise = [ddiv (Finite (cellz ! 2 - cellz ! 0)) cell_ylength,
                    ddiv (Finite (cellz ! 3 - cellz ! 1)) cell_ylength,
                    ddiv (Finite (cellz ! 6 - cellz ! 4)) cell_ylength,
                    ddiv (Finite (cellz ! 7 - cellz ! 5)) cell_ylength]
       in Inr (ddiv (dadd (dadd (dadd (xrise ! 0) (xrise ! 1)) (xrise ! 2)) (xrise ! 3)) 4,
               ddiv (dadd (dadd (dadd (yrise ! 0) (yrise ! 1)) (yrise ! 2)) (yrise ! 3)) 4)))))))"

definition cellDips_idx :: "EclipseGridInspector \<Rightarrow> int \<Rightarrow> error + double \<times> double" where
  "cellDips_idx insp cell_idx =
     bind_err (cellIdxToLogicalCoords insp cell_idx) (\<lambda>idxs.
       cellDips insp (idxs ! 0) (idxs ! 1) (idxs ! 2))"

subsection \<open>cellVolumeVerticalPillars\<close>

definition cellVolumeVerticalPillars :: "EclipseGridInspector \<Rightarrow> int \<Rightarrow> int \<Rightarrow> int \<Rightarrow> error + real" where
  "cellVolumeVerticalPillars insp i j k =
     bind_err (checkLogicalCoords insp i j k) (\<lambda>_.
     bind_err (getFloatingPointValue (parser insp) ''COORD'') (\<lambda>pillc.
       let num_pillars = (gridsize0 insp + 1) * (gridsize1 insp + 1) in
       if 6 * num_pillars \<noteq> int (length pillc) then Inl WrongSizeCOORD
       else
     bind_err (getFloatingPointValue (parser insp) ''ZCORN'') (\<lambda>z.
       let num_cells = gridsize0 insp * gridsize1 insp * gridsize2 insp in
       if 8 * num_cells \<noteq> int (length z) then Inl WrongSizeZCORN
       else
         let numxpill = gridsize0 insp + 1;
             pix = i + j * numxpill
         in
     bind_err (vec_reads pillc [6 * pix, 6 * (pix + 1),
                                6 * (pix + numxpill), 6 * (pix + numxpill + 1)]) (\<lambda>px.
     bind_err (vec_reads pillc [6 * pix + 1, 6 * (pix + 1) + 1,
                                6 * (pix + numxpill) + 1, 6 * (pix + numxpill + 1) + 1]) (\<lambda>py.
       let diag1 = [px ! 3 - px ! 0, py ! 3 - py ! 0];
           diag2 = [px ! 2 - px ! 1, py ! 2 - py ! 1];
           area = 0.5 * (diag1 ! 0 * diag2 ! 1 - diag1 ! 1 * diag2 ! 0);
           delta0 = 1;
           delta1 = 2 * gridsize0 insp;
           delta2 = 4 * gridsize0 insp * gridsize1 insp;
           ix = 2 * (i * delta0 + j * delta1 + k * delta2)
       in
     bind_err (vec_reads z [ix, ix + delta0,
                            ix + delta1, ix + delta1 + delta0,
                            ix + delta2, ix + delta2 + delta0,
                            ix + delta2 + delta1, ix + delta2 + delta1 + delta0]) (\<lambda>cellz.
       let diffz = [cellz ! 4 - cellz ! 0,
                    cellz ! 5 - cellz ! 1,
                    cellz ! 6 - cellz ! 2,
                    cellz ! 7 - cellz ! 3];
           averzdiff = 0.25 * foldl (+) 0 diffz
       in Inr (averzdiff * area)))))))"

definition cellVolumeVerticalPillars_idx :: "EclipseGridInspector \<Rightarrow> int \<Rightarrow> error + real" where
  "cellVolumeVerticalPillars_idx insp cell_idx =
     bind_err (cellIdxToLogicalCoords insp cell_idx) (\<lambda>idxs.
       cellVolumeVerticalPillars insp (idxs ! 0) (idxs ! 1) (idxs ! 2))"

subsection \<open>getGridLimits\<close>

text \<open>The running extremes \<open>(xmin, xmax, ymin, ymax)\<close> and one turn of the pillar loop.\<close>

type_synonym xy_limits = "real \<times> real \<times> real \<times> real"

definition getGridLimits_body :: "real list \<Rightarrow> int \<Rightarrow> xy_limits \<Rightarrow> error + xy_limits" where
  "getGridLimits_body coord pillarindex s =
     (case s of (xmin, xmax, ymin, ymax) \<Rightarrow>
     bind_err (vec_at coord (pillarindex * 6 + 0)) (\<lambda>c0.
       let xmax = (if c0 > xmax then c0 else xmax);
           xmin = (if c0 < xmin then c0 else xmin)
       in
     bind_err (vec_at coord (pillarindex * 6 + 1)) (\<lambda>c1.
       let ymax = (if c1 > ymax then c1 else ymax);
           ymin = (if c1 < ymin then c1 else ymin)
       in
     bind_err (vec_at coord (pillarindex * 6 + 3)) (\<lambda>c3.
       let xmax = (if c3 > xmax then c3 else xmax);
           xmin = (if c3 < xmin then c3 else xmin)
       in
     bind_err (vec_at coord (pillarindex * 6 + 4)) (\<lambda>c4.
       let ymax = (if c4 > ymax then c4 else ymax);
           ymin = (if c4 < ymin then c4 else ymin)
       in Inr (xmin, xmax, ymin, ymax))))))"

function getGridLimits_loop :: "real list \<Rightarrow> int \<Rightarrow> int \<Rightarrow> xy_limits \<Rightarrow> error + xy_limits" where
  "getGridLimits_loop coord pillars pillarindex s =
     (if pillarindex < pillars then
        (case getGridLimits_body coord pillarindex s of
           Inl e \<Rightarrow> Inl e
         | Inr s' \<Rightarrow> getGridLimits_loop coord pillars (pillarindex + 1) s')
      else Inr s)"
  by pat_completeness auto
termination
  by (relation "measure (\<lambda>(coord, pillars, pillarindex, s). nat (pillars - pillarindex))") auto

text \<open>\<^verbatim>\<open>*min_element(v.begin(), v.end())\<close> and \<^verbatim>\<open>*max_element(v.begin(), v.end())\<close>.\<close>

fun min_element :: "real list \<Rightarrow> error + real" where
  "min_element [] = Inl UndefinedBehaviour"
| "min_element (x # xs) = Inr (foldl (\<lambda>m y. if y < m then y else m) x xs)"

fun max_element :: "real list \<Rightarrow> error + real" where
  "max_element [] = Inl UndefinedBehaviour"
| "max_element (x # xs) = Inr (foldl (\<lambda>m y. if m < y then y else m) x xs)"

definition getGridLimits :: "EclipseGridInspector \<Rightarrow> error + real list" where
  "getGridLimits insp =
     (if \<not> (hasField (parser insp) ''COORD'' \<and> hasField (parser insp) ''ZCORN'' \<and>
             hasField (parser insp) ''SPECGRID'')
      then Inl GridLimitsFieldMissing
      else
        bind_err (getFloatingPointValue (parser insp) ''COORD'') (\<lambda>coord.
        bind_err (getFloatingPointValue (parser insp) ''ZCORN'') (\<lambda>zcorn.
          let pillars = (gridsize0 insp + 1) * (gridsize1 insp + 1) in
        bind_err (getGridLimits_loop coord pillars 0 (DBL_MAX, - DBL_MAX, DBL_MAX, - DBL_MAX))
          (\<lambda>(xmin, xmax, ymin, ymax).
        bind_err (min_element zcorn) (\<lambda>zmin.
        bind_err (max_element zcorn) (\<lambda>zmax.
          Inr [xmin, xmax, ymin, ymax, zmin, zmax]))))))"

section \<open>The quantities the specification names\<close>

text \<open>A result that is a failure of a given kind.\<close>

definition fails_with :: "(error \<Rightarrow> bool) \<Rightarrow> error + 'a \<Rightarrow> bool" where
  "fails_with P r = (case r of Inl e \<Rightarrow> P e | Inr _ \<Rightarrow> False)"

text \<open>
  Section 4.1 of the specification: the dimensions come from the SPECGRID record when
  it is present and from the DIMENS integers otherwise.
\<close>

definition dimension_source :: "EclipseGridParser \<Rightarrow> error + int list" where
  "dimension_source p =
     (if hasField p ''SPECGRID'' then bind_err (getSPECGRID p) (\<lambda>sgr. Inr (dimensions sgr))
      else getIntegerValue p ''DIMENS'')"

text \<open>A logical triple that addresses a cell of the grid.\<close>

definition in_bounds :: "EclipseGridInspector \<Rightarrow> int \<Rightarrow> int \<Rightarrow> int \<Rightarrow> bool" where
  "in_bounds insp i j k =
     (0 \<le> i \<and> i < gridsize0 insp \<and> 0 \<le> j \<and> j < gridsize1 insp \<and> 0 \<le> k \<and> k < gridsize2 insp)"

text \<open>
  Section 4.4 of the specification: the strides \<open>stride_i = 1\<close>, \<open>stride_j = 2*nx\<close>,
  \<open>stride_k = 4*nx*ny\<close>, the base offset of a cell and the eight offsets relative to
  it, in the corner order LLL, HLL, LHL, HHL, LLH, HLH, LHH, HHH.
\<close>

definition zcorn_base_offset :: "int \<Rightarrow> int \<Rightarrow> int \<Rightarrow> int \<Rightarrow> int \<Rightarrow> int" where
  "zcorn_base_offset nx ny i j k =
     (let stride_i = 1; stride_j = 2 * nx; stride_k = 4 * nx * ny
      in 2 * (i * stride_i + j * stride_j + k * stride_k))"

definition zcorn_corner_offsets :: "int \<Rightarrow> int \<Rightarrow> int list" where
  "zcorn_corner_offsets nx ny =
     (let stride_i = 1; stride_j = 2 * nx; stride_k = 4 * nx * ny
      in [0, stride_i, stride_j, stride_j + stride_i,
          stride_k, stride_k + stride_i, stride_k + stride_j, stride_k + stride_j + stride_i])"

definition spec_cellCorners :: "real list \<Rightarrow> int \<Rightarrow> int \<Rightarrow> int \<Rightarrow> int \<Rightarrow> int \<Rightarrow> real list" where
  "spec_cellCorners z nx ny i j k =
     map (\<lambda>off. z ! nat (zcorn_base_offset nx ny i j k + off)) (zcorn_corner_offsets nx ny)"

text \<open>Positions of the eight corners in the result of \<open>cellZvals\<close>.\<close>

definition LLL :: nat where "LLL = 0"
definition HLL :: nat where "HLL = 1"
definition LHL :: nat where "LHL = 2"
definition HHL :: nat where "HHL = 3"
definition LLH :: nat where "LLH = 4"
definition HLH :: nat where "HLH = 5"
definition LHH :: nat where "LHH = 6"
definition HHH :: nat where "HHH = 7"

text \<open>The corner pairs that differ along x only, along y only and along z only.\<close>

definition x_edges :: "(nat \<times> nat) list" where
  "x_edges = [(LLL, HLL), (LHL, HHL), (LLH, HLH), (LHH, HHH)]"

definition y_edges :: "(nat \<times> nat) list" where
  "y_edges = [(LLL, LHL), (HLL, HHL), (LLH, LHH), (HLH, HHH)]"

definition z_edges :: "(nat \<times> nat) list" where
  "z_edges = [(LLL, LLH), (HLL, HLH), (LHL, LHH), (HHL, HHH)]"

text \<open>
  Section 4.5 of the specification: the pillar of cell column \<open>(i, j)\<close> has index
  \<open>pix = i + j*(nx+1)\<close>, its neighbours are at \<open>+1\<close>, \<open>+(nx+1)\<close> and
  \<open>+(nx+1)+1\<close>, and the top \<open>(x, y)\<close> of a pillar are the first two of its six
  values.
\<close>

definition pillar_index :: "int \<Rightarrow> int \<Rightarrow> int \<Rightarrow> int" where
  "pillar_index nx i j = i + j * (nx + 1)"

definition pillar_top_x :: "real list \<Rightarrow> int \<Rightarrow> real" where
  "pillar_top_x coord p = coord ! nat (6 * p)"

definition pillar_top_y :: "real list \<Rightarrow> int \<Rightarrow> real" where
  "pillar_top_y coord p = coord ! nat (6 * p + 1)"

definition cell_pillars :: "int \<Rightarrow> int \<Rightarrow> int \<Rightarrow> int list" where
  "cell_pillars nx i j =
     (let pix = pillar_index nx i j in [pix, pix + 1, pix + (nx + 1), pix + (nx + 1) + 1])"

text \<open>Section 4.6: the pillar spacings and the mean rise over run along a set of edges.\<close>

definition spec_cell_xlength :: "real list \<Rightarrow> int \<Rightarrow> int \<Rightarrow> int \<Rightarrow> real" where
  "spec_cell_xlength coord nx i j =
     pillar_top_x coord (pillar_index nx i j + 1) - pillar_top_x coord (pillar_index nx i j)"

definition spec_cell_ylength :: "real list \<Rightarrow> int \<Rightarrow> int \<Rightarrow> int \<Rightarrow> real" where
  "spec_cell_ylength coord nx i j =
     pillar_top_y coord (pillar_index nx i j + (nx + 1)) - pillar_top_y coord (pillar_index nx i j)"

definition spec_dip :: "(nat \<times> nat) list \<Rightarrow> real list \<Rightarrow> real \<Rightarrow> real" where
  "spec_dip edges cellz len =
     sum_list (map (\<lambda>(lo, hi). (cellz ! hi - cellz ! lo) / len) edges) / 4"

text \<open>
  Section 4.5: the 2-D cross product of the diagonals \<open>diag1 = p3 - p0\<close> and
  \<open>diag2 = p2 - p1\<close> of the quadrilateral of pillar tops, the area as the claim words
  it (half the magnitude), the area with its sign, and the mean of the four
  top-to-bottom depth differences.
\<close>

definition cross2 :: "real \<times> real \<Rightarrow> real \<times> real \<Rightarrow> real" where
  "cross2 u v = fst u * snd v - snd u * fst v"

definition spec_diagonal_cross :: "real list \<Rightarrow> int \<Rightarrow> int \<Rightarrow> int \<Rightarrow> real" where
  "spec_diagonal_cross coord nx i j =
     (let p = map (\<lambda>q. (pillar_top_x coord q, pillar_top_y coord q)) (cell_pillars nx i j);
          diag1 = (fst (p ! 3) - fst (p ! 0), snd (p ! 3) - snd (p ! 0));
          diag2 = (fst (p ! 2) - fst (p ! 1), snd (p ! 2) - snd (p ! 1))
      in cross2 diag1 diag2)"

definition spec_claimed_area :: "real list \<Rightarrow> int \<Rightarrow> int \<Rightarrow> int \<Rightarrow> real" where
  "spec_claimed_area coord nx i j = \<bar>spec_diagonal_cross coord nx i j\<bar> / 2"

definition signed_area :: "real list \<Rightarrow> int \<Rightarrow> int \<Rightarrow> int \<Rightarrow> real" where
  "signed_area coord nx i j = spec_diagonal_cross coord nx i j / 2"

definition spec_average_height :: "real list \<Rightarrow> real" where
  "spec_average_height cellz = sum_list (map (\<lambda>(lo, hi). cellz ! hi - cellz ! lo) z_edges) / 4"

text \<open>
  Section 4.7 of the specification: the top \<open>x\<close> and the top \<open>y\<close> of the first
  \<open>pillars\<close> pillars, which the claim names as the only values scanned; and the
  \<open>x\<close> and \<open>y\<close> of both ends of the pillars \<open>from, \<dots>, pillars - 1\<close>, which
  the source scans.
\<close>

definition pillar_top_xs :: "real list \<Rightarrow> nat \<Rightarrow> real list" where
  "pillar_top_xs coord pillars = map (\<lambda>p. coord ! (6 * p)) [0..<pillars]"

definition pillar_top_ys :: "real list \<Rightarrow> nat \<Rightarrow> real list" where
  "pillar_top_ys coord pillars = map (\<lambda>p. coord ! (6 * p + 1)) [0..<pillars]"

definition pillar_end_xs :: "real list \<Rightarrow> nat \<Rightarrow> nat \<Rightarrow> real list" where
  "pillar_end_xs coord from pillars =
     concat (map (\<lambda>p. [coord ! (6 * p), coord ! (6 * p + 3)]) [from..<pillars])"

definition pillar_end_ys :: "real list \<Rightarrow> nat \<Rightarrow> nat \<Rightarrow> real list" where
  "pillar_end_ys coord from pillars =
     concat (map (\<lambda>p. [coord ! (6 * p + 1), coord ! (6 * p + 4)]) [from..<pillars])"

section \<open>Example grids\<close>

text \<open>
  A grid of 2 x 1 x 1 cells on vertical pillars at \<open>x = 0, 2, 4\<close> and \<open>y = 0, 1\<close>,
  whose corner depths are \<open>x/2 + 2*y + 10*k\<close>.
\<close>

definition demo_coord :: "real list" where
  "demo_coord = [0, 0, 0, 0, 0, 1,   2, 0, 0, 2, 0, 1,   4, 0, 0, 4, 0, 1,
                 0, 1, 0, 0, 1, 1,   2, 1, 0, 2, 1, 1,   4, 1, 0, 4, 1, 1]"

definition demo_zcorn :: "real list" where
  "demo_zcorn = [0, 1, 1, 2,   2, 3, 3, 4,   10, 11, 11, 12,   12, 13, 13, 14]"

definition demo_parser :: EclipseGridParser where
  "demo_parser = [''COORD'' \<mapsto> FloatingPointField demo_coord,
                  ''ZCORN'' \<mapsto> FloatingPointField demo_zcorn,
                  ''SPECGRID'' \<mapsto> SpecgridField \<lparr>dimensions = [2, 1, 1]\<rparr>]"

definition demo_inspector :: EclipseGridInspector where
  "demo_inspector = \<lparr>parser = demo_parser, logical_gridsize = (2, 1, 1)\<rparr>"

text \<open>
  One cell of unit height whose first grid axis runs against the x axis: the near pillar
  stands at \<open>x = 1\<close> and its neighbour in the first direction at \<open>x = 0\<close>.
\<close>

definition mirror_coord :: "real list" where
  "mirror_coord = [1, 0, 0, 1, 0, 1,   0, 0, 0, 0, 0, 1,   1, 1, 0, 1, 1, 1,   0, 1, 0, 0, 1, 1]"

definition mirror_zcorn :: "real list" where
  "mirror_zcorn = [0, 0, 0, 0, 1, 1, 1, 1]"

definition mirror_inspector :: EclipseGridInspector where
  "mirror_inspector =
     \<lparr>parser = [''COORD'' \<mapsto> FloatingPointField mirror_coord,
                 ''ZCORN'' \<mapsto> FloatingPointField mirror_zcorn,
                 ''SPECGRID'' \<mapsto> SpecgridField \<lparr>dimensions = [1, 1, 1]\<rparr>],
      logical_gridsize = (1, 1, 1)\<rparr>"

text \<open>One cell whose near pillar and its neighbour in the first direction share \<open>x = 0\<close>.\<close>

definition pinched_coord :: "real list" where
  "pinched_coord = [0, 0, 0, 0, 0, 1,   0, 0, 0, 0, 0, 1,   0, 1, 0, 0, 1, 1,   1, 1, 0, 1, 1, 1]"

definition pinched_inspector :: EclipseGridInspector where
  "pinched_inspector =
     \<lparr>parser = [''COORD'' \<mapsto> FloatingPointField pinched_coord,
                 ''ZCORN'' \<mapsto> FloatingPointField mirror_zcorn,
                 ''SPECGRID'' \<mapsto> SpecgridField \<lparr>dimensions = [1, 1, 1]\<rparr>],
      logical_gridsize = (1, 1, 1)\<rparr>"

text \<open>
  A grid of 2 x 2 x 1 cells on vertical pillars at \<open>x, y = 0, 5, 10\<close>, with 32
  distinct corner depths, described by SPECGRID and (differently) by DIMENS; and a data
  source whose only dimensions are the DIMENS integers \<open>0, -1, 5\<close>.
\<close>

definition square_coord :: "real list" where
  "square_coord = [0, 0, 100, 0, 0, 131,     5, 0, 100, 5, 0, 131,     10, 0, 100, 10, 0, 131,
                   0, 5, 100, 0, 5, 131,     5, 5, 100, 5, 5, 131,     10, 5, 100, 10, 5, 131,
                   0, 10, 100, 0, 10, 131,   5, 10, 100, 5, 10, 131,   10, 10, 100, 10, 10, 131]"

definition square_zcorn :: "real list" where
  "square_zcorn = [100, 105, 110, 115,   120, 125, 130, 103,
                   108, 113, 118, 123,   128, 101, 106, 111,
                   116, 121, 126, 131,   104, 109, 114, 119,
                   124, 129, 102, 107,   112, 117, 122, 127]"

definition square_parser :: EclipseGridParser where
  "square_parser = [''COORD'' \<mapsto> FloatingPointField square_coord,
                    ''ZCORN'' \<mapsto> FloatingPointField square_zcorn,
                    ''SPECGRID'' \<mapsto> SpecgridField \<lparr>dimensions = [2, 2, 1]\<rparr>,
                    ''DIMENS'' \<mapsto> IntegerField [7, 8, 9]]"

definition square_inspector :: EclipseGridInspector where
  "square_inspector = \<lparr>parser = square_parser, logical_gridsize = (2, 2, 1)\<rparr>"

definition dimens_parser :: EclipseGridParser where
  "dimens_parser = [''COORD'' \<mapsto> FloatingPointField [],
                    ''ZCORN'' \<mapsto> FloatingPointField [],
                    ''DIMENS'' \<mapsto> IntegerField [0, - 1, 5]]"

text \<open>The first example grid with ZCORN, respectively COORD, one value short.\<close>

definition short_zcorn_inspector :: EclipseGridInspector where
  "short_zcorn_inspector =
     demo_inspector\<lparr>parser := demo_parser(''ZCORN'' \<mapsto> FloatingPointField (butlast demo_zcorn))\<rparr>"

definition short_coord_inspector :: EclipseGridInspector where
  "short_coord_inspector =
     demo_inspector\<lparr>parser := demo_parser(''COORD'' \<mapsto> FloatingPointField (butlast demo_coord))\<rparr>"

text \<open>
  One cell whose second pillar leans: its top is at \<open>(1, 0)\<close> and its bottom at
  \<open>(3, -2)\<close>.
\<close>

definition leaning_coord :: "real list" where
  "leaning_coord = [0, 0, 0, 0, 0, 1,   1, 0, 0, 3, - 2, 1,   0, 1, 0, 0, 1, 1,   1, 1, 0, 1, 1, 1]"

definition leaning_inspector :: EclipseGridInspector where
  "leaning_inspector =
     \<lparr>parser = [''COORD'' \<mapsto> FloatingPointField leaning_coord,
                 ''ZCORN'' \<mapsto> FloatingPointField mirror_zcorn,
                 ''SPECGRID'' \<mapsto> SpecgridField \<lparr>dimensions = [1, 1, 1]\<rparr>],
      logical_gridsize = (1, 1, 1)\<rparr>"

section \<open>Basic facts\<close>

lemma bind_err_Inr [simp]: "bind_err (Inr x) f = f x"
  by (simp add: bind_err_def)

lemma bind_err_Inl [simp]: "bind_err (Inl e) f = Inl e"
  by (simp add: bind_err_def)

lemma vec_reads_in_range:
  "\<forall>i \<in> set ixs. 0 \<le> i \<and> i < int (length v) \<Longrightarrow>
     vec_reads v ixs = Inr (map (\<lambda>i. v ! nat i) ixs)"
  by (induction ixs) (simp_all add: vec_at_def)

lemmas parser_defs = hasField_def hasFields_def getFloatingPointValue_def getIntegerValue_def
  getSPECGRID_def

lemmas corner_defs = LLL_def HLL_def LHL_def HHL_def LLH_def HLH_def LHH_def HHH_def

lemmas demo_defs =
  demo_inspector_def demo_parser_def demo_coord_def demo_zcorn_def
  mirror_inspector_def mirror_coord_def mirror_zcorn_def
  pinched_inspector_def pinched_coord_def
  square_inspector_def square_parser_def square_zcorn_def square_coord_def
  short_zcorn_inspector_def short_coord_inspector_def
  leaning_inspector_def
  gridsize0_def gridsize1_def gridsize2_def in_bounds_def
  getFloatingPointValue_def hasField_def

subsection \<open>Every ZCORN read of an in-bounds cell is inside the array\<close>

lemma zcorn_index_bounds:
  fixes i j k a b c :: int
  assumes "0 \<le> i" "i < a" "0 \<le> j" "j < b" "0 \<le> k" "k < c"
  shows "0 \<le> 2 * (i * 1 + j * (2 * a) + k * (4 * a * b))"
    and "2 * (i * 1 + j * (2 * a) + k * (4 * a * b)) + 4 * a * b + 2 * a + 1 < 8 * (a * b * c)"
    and "0 \<le> a" and "0 \<le> a * b"
proof -
  have a: "0 < a" and b: "0 < b" using assms by auto
  have ab: "0 < a * b" using a b by simp
  have ja: "0 \<le> j * a" using assms a by simp
  have kab: "0 \<le> k * (a * b)" using assms ab by simp
  have ja': "j * a \<le> (b - 1) * a" using assms a by (intro mult_right_mono) auto
  have kab': "k * (a * b) \<le> (c - 1) * (a * b)" using assms ab by (intro mult_right_mono) auto
  show "0 \<le> 2 * (i * 1 + j * (2 * a) + k * (4 * a * b))"
    using ja kab assms(1) by (simp add: algebra_simps)
  show "2 * (i * 1 + j * (2 * a) + k * (4 * a * b)) + 4 * a * b + 2 * a + 1 < 8 * (a * b * c)"
    using ja' kab' assms(2) by (simp add: algebra_simps)
  show "0 \<le> a" using a by simp
  show "0 \<le> a * b" using ab by simp
qed

lemma zcorn_reads_ok:
  assumes ib: "in_bounds insp i j k"
    and len: "int (length z) = 8 * (gridsize0 insp * gridsize1 insp * gridsize2 insp)"
  shows "vec_reads z (map (\<lambda>off. zcorn_base_offset (gridsize0 insp) (gridsize1 insp) i j k + off)
                          (zcorn_corner_offsets (gridsize0 insp) (gridsize1 insp)))
         = Inr (spec_cellCorners z (gridsize0 insp) (gridsize1 insp) i j k)"
proof -
  let ?a = "gridsize0 insp" and ?b = "gridsize1 insp" and ?c = "gridsize2 insp"
  from ib have h: "0 \<le> i" "i < ?a" "0 \<le> j" "j < ?b" "0 \<le> k" "k < ?c"
    by (simp_all add: in_bounds_def)
  note bs = zcorn_index_bounds[OF h]
  have "\<forall>x \<in> set (map (\<lambda>off. zcorn_base_offset ?a ?b i j k + off) (zcorn_corner_offsets ?a ?b)).
          0 \<le> x \<and> x < int (length z)"
    using bs unfolding len by (simp add: zcorn_base_offset_def zcorn_corner_offsets_def Let_def)
  from vec_reads_in_range[OF this] show ?thesis
    by (simp add: spec_cellCorners_def o_def)
qed

lemma zcorn_index_list:
  fixes a b i j k :: int
  defines "ix \<equiv> 2 * (i * 1 + j * (2 * a) + k * (4 * a * b))"
  shows "[ix, ix + 1, ix + 2 * a, ix + 2 * a + 1, ix + 4 * a * b,
          ix + 4 * a * b + 1, ix + 4 * a * b + 2 * a, ix + 4 * a * b + 2 * a + 1]
         = map (\<lambda>off. zcorn_base_offset a b i j k + off) (zcorn_corner_offsets a b)"
  by (simp add: ix_def zcorn_base_offset_def zcorn_corner_offsets_def Let_def)

lemma cellZvals_ok:
  assumes "in_bounds insp i j k"
    and "getFloatingPointValue (parser insp) ''ZCORN'' = Inr z"
    and "int (length z) = 8 * (gridsize0 insp * gridsize1 insp * gridsize2 insp)"
  shows "cellZvals insp i j k = Inr (spec_cellCorners z (gridsize0 insp) (gridsize1 insp) i j k)"
proof -
  let ?a = "gridsize0 insp" and ?b = "gridsize1 insp"
  let ?ix = "2 * (i * 1 + j * (2 * ?a) + k * (4 * ?a * ?b))"
  have "cellZvals insp i j k =
          vec_reads z [?ix, ?ix + 1, ?ix + 2 * ?a, ?ix + 2 * ?a + 1, ?ix + 4 * ?a * ?b,
              ?ix + 4 * ?a * ?b + 1, ?ix + 4 * ?a * ?b + 2 * ?a, ?ix + 4 * ?a * ?b + 2 * ?a + 1]"
    using assms(2,3) by (simp add: cellZvals_def Let_def mult.assoc del: vec_reads.simps)
  also have "\<dots> = Inr (spec_cellCorners z ?a ?b i j k)"
    unfolding zcorn_index_list by (rule zcorn_reads_ok[OF assms(1,3)])
  finally show ?thesis .
qed

subsection \<open>Every COORD read of an in-bounds cell is inside the array\<close>

lemma coord_index_bounds:
  fixes i j a b :: int
  assumes "0 \<le> i" "i < a" "0 \<le> j" "j < b"
  shows "0 \<le> i + j * (a + 1)"
    and "6 * (i + j * (a + 1) + (a + 1) + 1) + 1 < 6 * ((a + 1) * (b + 1))"
proof -
  have a: "0 < a" using assms by auto
  have ja: "0 \<le> j * (a + 1)" using assms a by simp
  have ja': "j * (a + 1) \<le> (b - 1) * (a + 1)" using assms a by (intro mult_right_mono) auto
  show "0 \<le> i + j * (a + 1)" using ja assms(1) by simp
  show "6 * (i + j * (a + 1) + (a + 1) + 1) + 1 < 6 * ((a + 1) * (b + 1))"
    using ja' assms(2) by (simp add: algebra_simps)
qed

lemma coord_reads_ok:
  fixes pillc :: "real list"
  assumes ib: "in_bounds insp i j k"
    and len: "int (length pillc) = 6 * ((gridsize0 insp + 1) * (gridsize1 insp + 1))"
    and ixs: "\<forall>x \<in> set ixs. 6 * (i + j * (gridsize0 insp + 1)) \<le> x \<and>
                 x \<le> 6 * (i + j * (gridsize0 insp + 1) + (gridsize0 insp + 1) + 1) + 1"
  shows "vec_reads pillc ixs = Inr (map (\<lambda>x. pillc ! nat x) ixs)"
proof (rule vec_reads_in_range, rule ballI)
  fix x assume xin: "x \<in> set ixs"
  define p where "p = i + j * (gridsize0 insp + 1)"
  define n where "n = (gridsize0 insp + 1) * (gridsize1 insp + 1)"
  define a where "a = gridsize0 insp"
  from ixs xin have x: "6 * p \<le> x" "x \<le> 6 * (p + (a + 1) + 1) + 1"
    by (auto simp: p_def a_def)
  from ib have h: "0 \<le> i" "i < gridsize0 insp" "0 \<le> j" "j < gridsize1 insp"
    by (simp_all add: in_bounds_def)
  from coord_index_bounds[OF h]
  have bs: "0 \<le> p" "6 * (p + (a + 1) + 1) + 1 < 6 * n"
    by (simp_all add: p_def n_def a_def)
  have "0 \<le> x" using bs(1) x(1) by linarith
  moreover have "x < 6 * n" using bs(2) x(2) by linarith
  ultimately show "0 \<le> x \<and> x < int (length pillc)" by (simp add: len n_def)
qed

lemma cellDips_reads:
  assumes ib: "in_bounds insp i j k"
    and c: "getFloatingPointValue (parser insp) ''COORD'' = Inr pillc"
    and clen: "int (length pillc) = 6 * ((gridsize0 insp + 1) * (gridsize1 insp + 1))"
    and z: "getFloatingPointValue (parser insp) ''ZCORN'' = Inr z"
    and zlen: "int (length z) = 8 * (gridsize0 insp * gridsize1 insp * gridsize2 insp)"
  shows "cellDips insp i j k =
     (let cellz = spec_cellCorners z (gridsize0 insp) (gridsize1 insp) i j k;
          xlen = spec_cell_xlength pillc (gridsize0 insp) i j;
          ylen = spec_cell_ylength pillc (gridsize0 insp) i j
      in Inr (if xlen = 0 then NotFinite else Finite (spec_dip x_edges cellz xlen),
              if ylen = 0 then NotFinite else Finite (spec_dip y_edges cellz ylen)))"
proof -
  let ?a = "gridsize0 insp"
  let ?pix = "i + j * (?a + 1)"
  from ib have h: "0 \<le> i" "i < gridsize0 insp" "0 \<le> j" "j < gridsize1 insp"
    by (simp_all add: in_bounds_def)
  have chk: "checkLogicalCoords insp i j k = Inr ()"
    using ib by (auto simp: in_bounds_def checkLogicalCoords_def)
  note zv = cellZvals_ok[OF ib z zlen]
  have r1: "vec_reads pillc [6 * (?pix + 1), 6 * ?pix]
              = Inr [pillc ! nat (6 * (?pix + 1)), pillc ! nat (6 * ?pix)]"
    using coord_reads_ok[OF ib clen, of "[6 * (?pix + 1), 6 * ?pix]"] h by simp
  have r2: "vec_reads pillc [6 * (?pix + (?a + 1)) + 1, 6 * ?pix + 1]
              = Inr [pillc ! nat (6 * (?pix + (?a + 1)) + 1), pillc ! nat (6 * ?pix + 1)]"
    using coord_reads_ok[OF ib clen, of "[6 * (?pix + (?a + 1)) + 1, 6 * ?pix + 1]"] h by simp
  show ?thesis
    unfolding cellDips_def Let_def chk bind_err_Inr c z zv r1 r2
    using clen zlen
    by (simp add: ddiv_def dadd_def spec_dip_def x_edges_def y_edges_def corner_defs
        spec_cell_xlength_def spec_cell_ylength_def pillar_top_x_def pillar_top_y_def
        pillar_index_def mult.assoc del: vec_reads.simps)
qed

lemma cellVolumeVerticalPillars_reads:
  assumes ib: "in_bounds insp i j k"
    and c: "getFloatingPointValue (parser insp) ''COORD'' = Inr pillc"
    and clen: "int (length pillc) = 6 * ((gridsize0 insp + 1) * (gridsize1 insp + 1))"
    and z: "getFloatingPointValue (parser insp) ''ZCORN'' = Inr z"
    and zlen: "int (length z) = 8 * (gridsize0 insp * gridsize1 insp * gridsize2 insp)"
  shows "cellVolumeVerticalPillars insp i j k =
     Inr (signed_area pillc (gridsize0 insp) i j *
          spec_average_height (spec_cellCorners z (gridsize0 insp) (gridsize1 insp) i j k))"
proof -
  let ?a = "gridsize0 insp" and ?b = "gridsize1 insp"
  let ?pix = "i + j * (?a + 1)"
  let ?ix = "2 * (i * 1 + j * (2 * ?a) + k * (4 * ?a * ?b))"
  let ?q = "pillar_index ?a i j"
  define x0 x1 x2 x3 where x: "x0 = pillar_top_x pillc ?q" "x1 = pillar_top_x pillc (?q + 1)"
    "x2 = pillar_top_x pillc (?q + (?a + 1))" "x3 = pillar_top_x pillc (?q + (?a + 1) + 1)"
  define y0 y1 y2 y3 where y: "y0 = pillar_top_y pillc ?q" "y1 = pillar_top_y pillc (?q + 1)"
    "y2 = pillar_top_y pillc (?q + (?a + 1))" "y3 = pillar_top_y pillc (?q + (?a + 1) + 1)"
  from ib have h: "0 \<le> i" "i < gridsize0 insp" "0 \<le> j" "j < gridsize1 insp"
    by (simp_all add: in_bounds_def)
  have chk: "checkLogicalCoords insp i j k = Inr ()"
    using ib by (auto simp: in_bounds_def checkLogicalCoords_def)
  have r1: "vec_reads pillc [6 * ?pix, 6 * (?pix + 1), 6 * (?pix + (?a + 1)), 6 * (?pix + (?a + 1) + 1)]
      = Inr [x0, x1, x2, x3]"
  proof -
    have "\<forall>x \<in> set [6 * ?pix, 6 * (?pix + 1), 6 * (?pix + (?a + 1)), 6 * (?pix + (?a + 1) + 1)].
        6 * ?pix \<le> x \<and> x \<le> 6 * (?pix + (?a + 1) + 1) + 1"
      using h by simp
    from coord_reads_ok[OF ib clen this] show ?thesis
      unfolding x pillar_top_x_def pillar_index_def list.map .
  qed
  have r2: "vec_reads pillc [6 * ?pix + 1, 6 * (?pix + 1) + 1, 6 * (?pix + (?a + 1)) + 1,
                             6 * (?pix + (?a + 1) + 1) + 1]
      = Inr [y0, y1, y2, y3]"
  proof -
    have "\<forall>x \<in> set [6 * ?pix + 1, 6 * (?pix + 1) + 1, 6 * (?pix + (?a + 1)) + 1,
                       6 * (?pix + (?a + 1) + 1) + 1].
        6 * ?pix \<le> x \<and> x \<le> 6 * (?pix + (?a + 1) + 1) + 1"
      using h by simp
    from coord_reads_ok[OF ib clen this] show ?thesis
      unfolding y pillar_top_y_def pillar_index_def list.map .
  qed
  have r3: "vec_reads z [?ix, ?ix + 1, ?ix + 2 * ?a, ?ix + 2 * ?a + 1, ?ix + 4 * ?a * ?b,
              ?ix + 4 * ?a * ?b + 1, ?ix + 4 * ?a * ?b + 2 * ?a, ?ix + 4 * ?a * ?b + 2 * ?a + 1]
      = Inr (spec_cellCorners z ?a ?b i j k)"
    unfolding zcorn_index_list by (rule zcorn_reads_ok[OF ib zlen])
  have sa: "signed_area pillc ?a i j = ((x3 - x0) * (y2 - y1) - (y3 - y0) * (x2 - x1)) / 2"
    unfolding signed_area_def spec_diagonal_cross_def cell_pillars_def Let_def list.map
      x[symmetric] y[symmetric]
    by (simp add: cross2_def)
  show ?thesis
    unfolding cellVolumeVerticalPillars_def Let_def chk bind_err_Inr c z r1 r2 r3 sa
    using clen zlen
    by (simp add: spec_average_height_def z_edges_def corner_defs del: vec_reads.simps)
qed

subsection \<open>The coordinate check and the size checks\<close>

lemma checkLogicalCoords_out_of_bounds:
  assumes "\<not> in_bounds insp i j k"
  shows "fails_with is_out_of_bounds_error (checkLogicalCoords insp i j k)"
    and "checkLogicalCoords insp i j k =
      Inl (if i < 0 \<or> gridsize0 insp \<le> i then FirstCoordOutOfBounds
           else if j < 0 \<or> gridsize1 insp \<le> j then SecondCoordOutOfBounds
           else ThirdCoordOutOfBounds)"
  using assms
  by (auto simp: in_bounds_def checkLogicalCoords_def fails_with_def is_out_of_bounds_error_def)

lemma checkLogicalCoords_parser:
  "checkLogicalCoords (insp\<lparr>parser := p\<rparr>) i j k = checkLogicalCoords insp i j k"
  by (simp add: checkLogicalCoords_def gridsize0_def gridsize1_def gridsize2_def)

text \<open>The two checked queries: out of bounds they fail, whatever the parser holds.\<close>


lemma cellVolume_out_of_bounds:
  assumes "\<not> in_bounds insp i j k"
  shows "cellVolumeVerticalPillars (insp\<lparr>parser := p\<rparr>) i j k =
      Inl (if i < 0 \<or> gridsize0 insp \<le> i then FirstCoordOutOfBounds
           else if j < 0 \<or> gridsize1 insp \<le> j then SecondCoordOutOfBounds
           else ThirdCoordOutOfBounds)"
  unfolding cellVolumeVerticalPillars_def checkLogicalCoords_parser
    checkLogicalCoords_out_of_bounds(2)[OF assms] by simp

lemma cellDips_out_of_bounds:
  assumes "\<not> in_bounds insp i j k"
  shows "cellDips (insp\<lparr>parser := p\<rparr>) i j k =
      Inl (if i < 0 \<or> gridsize0 insp \<le> i then FirstCoordOutOfBounds
           else if j < 0 \<or> gridsize1 insp \<le> j then SecondCoordOutOfBounds
           else ThirdCoordOutOfBounds)"
  unfolding cellDips_def checkLogicalCoords_parser
    checkLogicalCoords_out_of_bounds(2)[OF assms] by simp

lemma vec_reads_error: "vec_reads v ixs = Inl e \<Longrightarrow> e = UndefinedBehaviour"
  by (induction ixs arbitrary: e)
     (auto simp: vec_at_def bind_err_def split: if_splits sum.splits)

lemma checkLogicalCoords_in_bounds: "in_bounds insp i j k \<Longrightarrow> checkLogicalCoords insp i j k = Inr ()"
  by (auto simp: in_bounds_def checkLogicalCoords_def)

lemma cellZvals_size_mismatch:
  assumes z: "getFloatingPointValue (parser insp) ''ZCORN'' = Inr z"
  shows "fails_with is_size_mismatch_error (cellZvals insp i j k) =
     (int (length z) \<noteq> 8 * (gridsize0 insp * gridsize1 insp * gridsize2 insp))"
proof (cases "int (length z) = 8 * (gridsize0 insp * gridsize1 insp * gridsize2 insp)")
  case True
  let ?a = "gridsize0 insp" and ?b = "gridsize1 insp"
  let ?ix = "2 * (i * 1 + j * (2 * ?a) + k * (4 * ?a * ?b))"
  have "cellZvals insp i j k =
          vec_reads z [?ix, ?ix + 1, ?ix + 2 * ?a, ?ix + 2 * ?a + 1, ?ix + 4 * ?a * ?b,
              ?ix + 4 * ?a * ?b + 1, ?ix + 4 * ?a * ?b + 2 * ?a, ?ix + 4 * ?a * ?b + 2 * ?a + 1]"
    using z True by (simp add: cellZvals_def Let_def mult.assoc del: vec_reads.simps)
  then have "\<not> fails_with is_size_mismatch_error (cellZvals insp i j k)"
    by (auto simp: fails_with_def is_size_mismatch_error_def split: sum.splits
        dest!: vec_reads_error simp del: vec_reads.simps)
  with True show ?thesis by simp
next
  case False
  then have "cellZvals insp i j k = Inl WrongSizeZCORN"
    using z by (simp add: cellZvals_def Let_def mult.assoc del: vec_reads.simps)
  with False show ?thesis
    by (simp add: fails_with_def is_size_mismatch_error_def)
qed

lemma checked_queries_size_mismatch:
  assumes ib: "in_bounds insp i j k"
    and c: "getFloatingPointValue (parser insp) ''COORD'' = Inr pillc"
    and z: "getFloatingPointValue (parser insp) ''ZCORN'' = Inr z"
  shows "fails_with is_size_mismatch_error (cellVolumeVerticalPillars insp i j k) =
           (int (length pillc) \<noteq> 6 * ((gridsize0 insp + 1) * (gridsize1 insp + 1)) \<or>
            int (length z) \<noteq> 8 * (gridsize0 insp * gridsize1 insp * gridsize2 insp))"
    and "fails_with is_size_mismatch_error (cellDips insp i j k) =
           (int (length pillc) \<noteq> 6 * ((gridsize0 insp + 1) * (gridsize1 insp + 1)) \<or>
            int (length z) \<noteq> 8 * (gridsize0 insp * gridsize1 insp * gridsize2 insp))"
proof -
  note chk = checkLogicalCoords_in_bounds[OF ib]
  consider (coord) "int (length pillc) \<noteq> 6 * ((gridsize0 insp + 1) * (gridsize1 insp + 1))"
    | (zcorn) "int (length pillc) = 6 * ((gridsize0 insp + 1) * (gridsize1 insp + 1))"
        "int (length z) \<noteq> 8 * (gridsize0 insp * gridsize1 insp * gridsize2 insp)"
    | (ok) "int (length pillc) = 6 * ((gridsize0 insp + 1) * (gridsize1 insp + 1))"
        "int (length z) = 8 * (gridsize0 insp * gridsize1 insp * gridsize2 insp)"
    by blast
  then have "fails_with is_size_mismatch_error (cellVolumeVerticalPillars insp i j k) =
           (int (length pillc) \<noteq> 6 * ((gridsize0 insp + 1) * (gridsize1 insp + 1)) \<or>
            int (length z) \<noteq> 8 * (gridsize0 insp * gridsize1 insp * gridsize2 insp)) \<and>
        fails_with is_size_mismatch_error (cellDips insp i j k) =
           (int (length pillc) \<noteq> 6 * ((gridsize0 insp + 1) * (gridsize1 insp + 1)) \<or>
            int (length z) \<noteq> 8 * (gridsize0 insp * gridsize1 insp * gridsize2 insp))"
  proof cases
    case coord
    then have "cellVolumeVerticalPillars insp i j k = Inl WrongSizeCOORD"
      "cellDips insp i j k = Inl WrongSizeCOORD"
      unfolding cellVolumeVerticalPillars_def cellDips_def chk c bind_err_Inr Let_def
      by (simp_all add: mult.assoc del: vec_reads.simps)
    with coord show ?thesis by (simp add: fails_with_def is_size_mismatch_error_def)
  next
    case zcorn
    then have "cellVolumeVerticalPillars insp i j k = Inl WrongSizeZCORN"
      "cellDips insp i j k = Inl WrongSizeZCORN"
      unfolding cellVolumeVerticalPillars_def cellDips_def chk c z bind_err_Inr Let_def
      by (simp_all add: mult.assoc del: vec_reads.simps)
    with zcorn show ?thesis by (simp add: fails_with_def is_size_mismatch_error_def)
  next
    case ok
    note v = cellVolumeVerticalPillars_reads[OF ib c ok(1) z ok(2)]
    note d = cellDips_reads[OF ib c ok(1) z ok(2)]
    from ok show ?thesis
      unfolding v d by (simp add: fails_with_def is_size_mismatch_error_def Let_def)
  qed
  then show "fails_with is_size_mismatch_error (cellVolumeVerticalPillars insp i j k) =
           (int (length pillc) \<noteq> 6 * ((gridsize0 insp + 1) * (gridsize1 insp + 1)) \<or>
            int (length z) \<noteq> 8 * (gridsize0 insp * gridsize1 insp * gridsize2 insp))"
    and "fails_with is_size_mismatch_error (cellDips insp i j k) =
           (int (length pillc) \<noteq> 6 * ((gridsize0 insp + 1) * (gridsize1 insp + 1)) \<or>
            int (length z) \<noteq> 8 * (gridsize0 insp * gridsize1 insp * gridsize2 insp))"
    by simp_all
qed

subsection \<open>When construction reports a configuration error\<close>

lemma new_EclipseGridInspector_config_error:
  "fails_with is_configuration_error (new_EclipseGridInspector p) =
     (\<not> hasField p ''COORD'' \<or> \<not> hasField p ''ZCORN'' \<or>
      (\<not> hasField p ''SPECGRID'' \<and> \<not> hasField p ''DIMENS''))"
proof (cases "hasField p ''COORD'' \<and> hasField p ''ZCORN''")
  case False
  then show ?thesis
    by (auto simp: new_EclipseGridInspector_def fails_with_def is_configuration_error_def
        hasFields_def)
next
  case cz: True
  show ?thesis
  proof (cases "hasField p ''SPECGRID''")
    case True
    have "\<not> fails_with is_configuration_error
            (bind_err (getSPECGRID p) (\<lambda>sgr.
             bind_err (vec_reads (dimensions sgr) [0, 1, 2]) (\<lambda>d.
               Inr \<lparr>parser = p, logical_gridsize = (d ! 0, d ! 1, d ! 2)\<rparr>)))"
      by (simp add: getSPECGRID_def fails_with_def is_configuration_error_def bind_err_def
          vec_at_def split: option.splits field.splits sum.splits)
    with cz True show ?thesis
      by (simp add: new_EclipseGridInspector_def hasFields_def del: vec_reads.simps)
  next
    case no_sg: False
    show ?thesis
    proof (cases "hasField p ''DIMENS''")
      case True
      have "\<not> fails_with is_configuration_error
            (bind_err (getIntegerValue p ''DIMENS'') (\<lambda>dim.
             bind_err (vec_reads dim [0, 1, 2]) (\<lambda>d.
               Inr \<lparr>parser = p, logical_gridsize = (d ! 0, d ! 1, d ! 2)\<rparr>)))"
        by (simp add: getIntegerValue_def fails_with_def is_configuration_error_def bind_err_def
            vec_at_def split: option.splits field.splits sum.splits)
      with cz no_sg True show ?thesis
        by (simp add: new_EclipseGridInspector_def hasFields_def del: vec_reads.simps)
    next
      case False
      with cz no_sg show ?thesis
        by (simp add: new_EclipseGridInspector_def hasFields_def fails_with_def
            is_configuration_error_def)
    qed
  qed
qed

subsection \<open>The pillar loop and the extremes of ZCORN\<close>

declare getGridLimits_loop.simps [simp del]

lemma DBL_MAX_large: "1000 < DBL_MAX"
  by (simp add: DBL_MAX_def)

lemma getGridLimits_body_ok:
  assumes "0 \<le> p" and "p * 6 + 4 < int (length coord)"
  shows "getGridLimits_body coord p (xmin, xmax, ymin, ymax) =
     Inr (min (coord ! (6 * nat p + 3)) (min (coord ! (6 * nat p)) xmin),
          max (coord ! (6 * nat p + 3)) (max (coord ! (6 * nat p)) xmax),
          min (coord ! (6 * nat p + 4)) (min (coord ! (6 * nat p + 1)) ymin),
          max (coord ! (6 * nat p + 4)) (max (coord ! (6 * nat p + 1)) ymax))"
proof -
  have n: "nat (p * 6) = 6 * nat p" "nat (p * 6 + 1) = 6 * nat p + 1"
    "nat (p * 6 + 3) = 6 * nat p + 3" "nat (p * 6 + 4) = 6 * nat p + 4"
    using assms(1) by (simp_all add: nat_add_distrib nat_mult_distrib)
  have r: "vec_at coord (p * 6 + 0) = Inr (coord ! (6 * nat p))"
    "vec_at coord (p * 6 + 1) = Inr (coord ! (6 * nat p + 1))"
    "vec_at coord (p * 6 + 3) = Inr (coord ! (6 * nat p + 3))"
    "vec_at coord (p * 6 + 4) = Inr (coord ! (6 * nat p + 4))"
    using assms n by (simp_all add: vec_at_def)
  show ?thesis
    unfolding getGridLimits_body_def r
    by (simp add: Let_def min_def max_def)
qed

lemma getGridLimits_loop_ok:
  assumes "0 \<le> p" and "p \<le> n" and "6 * n \<le> int (length coord)"
  shows "getGridLimits_loop coord n p (xmin, xmax, ymin, ymax) =
     Inr (fold min (pillar_end_xs coord (nat p) (nat n)) xmin,
          fold max (pillar_end_xs coord (nat p) (nat n)) xmax,
          fold min (pillar_end_ys coord (nat p) (nat n)) ymin,
          fold max (pillar_end_ys coord (nat p) (nat n)) ymax)"
  using assms
proof (induction "nat (n - p)" arbitrary: p xmin xmax ymin ymax)
  case 0
  then have "p = n" by simp
  then show ?case
    by (simp add: getGridLimits_loop.simps pillar_end_xs_def pillar_end_ys_def)
next
  case (Suc k)
  then have lt: "p < n" by linarith
  with Suc.prems have rng: "p * 6 + 4 < int (length coord)" by linarith
  have k: "k = nat (n - (p + 1))" using Suc.hyps(2) by linarith
  have up: "[nat p..<nat n] = nat p # [nat (p + 1)..<nat n]"
    using lt Suc.prems(1) by (simp add: upt_conv_Cons nat_add_distrib)
  have ih: "\<And>a b c d. getGridLimits_loop coord n (p + 1) (a, b, c, d) =
     Inr (fold min (pillar_end_xs coord (nat (p + 1)) (nat n)) a,
          fold max (pillar_end_xs coord (nat (p + 1)) (nat n)) b,
          fold min (pillar_end_ys coord (nat (p + 1)) (nat n)) c,
          fold max (pillar_end_ys coord (nat (p + 1)) (nat n)) d)"
    using Suc.hyps(1)[OF k] Suc.prems lt by simp
  show ?case
    unfolding getGridLimits_loop.simps[of coord n p]
      getGridLimits_body_ok[OF Suc.prems(1) rng]
    using lt by (simp add: ih pillar_end_xs_def pillar_end_ys_def up)
qed


lemma fold_min_eq_Min:
  fixes xs :: "real list"
  assumes "xs \<noteq> []" and "\<forall>x \<in> set xs. x \<le> a"
  shows "fold min xs a = Min (set xs)"
proof -
  have "fold min xs a = Min (set (a # xs))"
    by (simp only: Min.set_eq_fold)
  also have "\<dots> = min a (Min (set xs))"
    using assms(1) by simp
  also have "\<dots> = Min (set xs)"
  proof -
    have "Min (set xs) \<le> a"
      using assms by (meson List.finite_set Min_in set_empty)
    then show ?thesis by simp
  qed
  finally show ?thesis .
qed

lemma fold_max_eq_Max:
  fixes xs :: "real list"
  assumes "xs \<noteq> []" and "\<forall>x \<in> set xs. a \<le> x"
  shows "fold max xs a = Max (set xs)"
proof -
  have "fold max xs a = Max (set (a # xs))"
    by (simp only: Max.set_eq_fold)
  also have "\<dots> = max a (Max (set xs))"
    using assms(1) by simp
  also have "\<dots> = Max (set xs)"
  proof -
    have "a \<le> Max (set xs)"
      using assms by (meson List.finite_set Max_in set_empty)
    then show ?thesis by simp
  qed
  finally show ?thesis .
qed

lemma min_element_eq_Min: "zs \<noteq> [] \<Longrightarrow> min_element zs = Inr (Min (set zs))"
proof (cases zs)
  case Nil
  assume "zs \<noteq> []" with Nil show ?thesis by simp
next
  case (Cons x xs)
  have f: "(\<lambda>m y. if y < m then y else m) = (\<lambda>m y::real. min y m)"
    by (auto simp: min_def fun_eq_iff)
  have "foldl (\<lambda>m y. if y < m then y else m) x xs = fold min xs x"
    unfolding f by (simp add: foldl_conv_fold)
  also have "\<dots> = Min (set (x # xs))"
    by (simp only: Min.set_eq_fold)
  finally show ?thesis using Cons by simp
qed

lemma max_element_eq_Max: "zs \<noteq> [] \<Longrightarrow> max_element zs = Inr (Max (set zs))"
proof (cases zs)
  case Nil
  assume "zs \<noteq> []" with Nil show ?thesis by simp
next
  case (Cons x xs)
  have f: "(\<lambda>m y. if m < y then y else m) = (\<lambda>m y::real. max y m)"
    by (auto simp: max_def fun_eq_iff)
  have "foldl (\<lambda>m y. if m < y then y else m) x xs = fold max xs x"
    unfolding f by (simp add: foldl_conv_fold)
  also have "\<dots> = Max (set (x # xs))"
    by (simp only: Max.set_eq_fold)
  finally show ?thesis using Cons by simp
qed

lemma pillar_end_values:
  assumes "0 < n" and "6 * n \<le> length coord"
  shows "pillar_end_xs coord 0 n \<noteq> []" "pillar_end_ys coord 0 n \<noteq> []"
    "set (pillar_end_xs coord 0 n) \<subseteq> set coord" "set (pillar_end_ys coord 0 n) \<subseteq> set coord"
proof -
  have "[0..<n] = 0 # [Suc 0..<n]" using assms(1) by (simp add: upt_conv_Cons)
  then show "pillar_end_xs coord 0 n \<noteq> []" "pillar_end_ys coord 0 n \<noteq> []"
    by (simp_all add: pillar_end_xs_def pillar_end_ys_def)
  have m: "coord ! (6 * p + k) \<in> set coord" if "p < n" "k \<le> 4" for p k
  proof -
    from that assms(2) have "6 * p + k < length coord" by linarith
    then show ?thesis by (rule nth_mem)
  qed
  show "set (pillar_end_xs coord 0 n) \<subseteq> set coord" "set (pillar_end_ys coord 0 n) \<subseteq> set coord"
    using m[of _ 0] m[of _ 1] m[of _ 3] m[of _ 4]
    by (auto simp: pillar_end_xs_def pillar_end_ys_def)
qed

lemma getGridLimits_ok:
  assumes sg: "hasField (parser insp) ''SPECGRID''"
    and c: "getFloatingPointValue (parser insp) ''COORD'' = Inr coord"
    and z: "getFloatingPointValue (parser insp) ''ZCORN'' = Inr zcorn"
    and nx: "0 \<le> gridsize0 insp" and ny: "0 \<le> gridsize1 insp"
    and len: "6 * ((gridsize0 insp + 1) * (gridsize1 insp + 1)) \<le> int (length coord)"
    and zne: "zcorn \<noteq> []"
    and fin: "\<forall>v \<in> set coord. \<bar>v\<bar> \<le> DBL_MAX"
  shows "getGridLimits insp =
     (let pillars = nat ((gridsize0 insp + 1) * (gridsize1 insp + 1));
          xs = pillar_end_xs coord 0 pillars;
          ys = pillar_end_ys coord 0 pillars
      in Inr [Min (set xs), Max (set xs), Min (set ys), Max (set ys),
              Min (set zcorn), Max (set zcorn)])"
proof -
  define n where "n = (gridsize0 insp + 1) * (gridsize1 insp + 1)"
  have npos: "0 < n" using nx ny by (simp add: n_def)
  have hf: "hasField (parser insp) ''COORD''" "hasField (parser insp) ''ZCORN''"
    using c z by (auto simp: getFloatingPointValue_def hasField_def split: option.splits)
  have len': "6 * nat n \<le> length coord" using len npos unfolding n_def[symmetric] by linarith
  note pe = pillar_end_values[OF _ len']
  have n0: "0 < nat n" using npos by simp
  have bx: "\<forall>x \<in> set (pillar_end_xs coord 0 (nat n)). x \<le> DBL_MAX \<and> - DBL_MAX \<le> x"
    using pe(3)[OF n0] fin by fastforce
  have "by": "\<forall>x \<in> set (pillar_end_ys coord 0 (nat n)). x \<le> DBL_MAX \<and> - DBL_MAX \<le> x"
    using pe(4)[OF n0] fin by fastforce
  have loop: "getGridLimits_loop coord n 0 (DBL_MAX, - DBL_MAX, DBL_MAX, - DBL_MAX) =
     Inr (Min (set (pillar_end_xs coord 0 (nat n))), Max (set (pillar_end_xs coord 0 (nat n))),
          Min (set (pillar_end_ys coord 0 (nat n))), Max (set (pillar_end_ys coord 0 (nat n))))"
    using getGridLimits_loop_ok[of 0 n coord DBL_MAX "- DBL_MAX" DBL_MAX "- DBL_MAX"]
      npos len bx "by" pe(1,2)[OF n0]
    by (simp add: n_def[symmetric] fold_min_eq_Min fold_max_eq_Max)
  show ?thesis
    unfolding getGridLimits_def Let_def c z bind_err_Inr n_def[symmetric] loop
      min_element_eq_Min[OF zne] max_element_eq_Max[OF zne]
    using sg hf by simp
qed

lemma upt_4: "[0..<4] = [0, 1, 2, 3::nat]"
  by (simp add: upt_rec)

lemma upt_9: "[0..<9] = [0, 1, 2, 3, 4, 5, 6, 7, 8::nat]"
  by (simp add: upt_rec)

subsection \<open>Where the index conversion is right\<close>

text \<open>
  For positive \<open>nx\<close> and \<open>ny\<close> and a non-negative index \<open>n\<close>, the conversion
  returns \<open>(n mod nx, (n div nx) mod ny, n div (nx*ny))\<close> whenever \<open>n + 1\<close> is not a
  multiple of \<open>nx\<close>, and for every \<open>n\<close> when \<open>nx = ny\<close>.
\<close>

lemma cdiv_nonneg: "0 \<le> x \<Longrightarrow> 0 < y \<Longrightarrow> cdiv x y = x div y"
  by (simp add: cdiv_def)

lemma cellIdxToLogicalCoords_when_remainder_or_square:
  fixes n a b :: int
  assumes g: "gridsize0 insp = a" "gridsize1 insp = b"
    and a: "0 < a" and b: "0 < b" and n: "0 \<le> n"
    and cond: "(n + 1) mod a \<noteq> 0 \<or> a = b"
  shows "cellIdxToLogicalCoords insp n = Inr [n mod a, (n div a) mod b, n div (a * b)]"
proof -
  define r where "r = n mod a"
  define q where "q = (n div a) mod b"
  define h where "h = a * q + r"
  have P: "0 < a * b" using a b by simp
  have r: "0 \<le> r" "r < a" using a by (simp_all add: r_def)
  have q: "0 \<le> q" "q < b" using b by (simp_all add: q_def)
  have aq: "0 \<le> a * q" using a q by simp
  have "a * q \<le> a * (b - 1)" using a q by (intro mult_left_mono) auto
  then have h: "0 \<le> h" "h < a * b"
    using r aq by (simp_all add: h_def algebra_simps)
  have hmod: "n mod (a * b) = h"
    using b by (simp add: zmod_zmult2_eq h_def q_def r_def)
  have n_eq: "n = a * b * (n div (a * b)) + h"
    using hmod by (metis mult_div_mod_eq)
  have F1: "\<lfloor>real_of_int (n + 1) / real_of_int (a * b)\<rfloor> = (n + 1) div (a * b)"
    by (rule floor_divide_of_int_eq)
  have m: "(n + 1) mod (a * b) = (if h + 1 = a * b then 0 else h + 1)"
  proof -
    have "(n + 1) mod (a * b) = (h + 1) mod (a * b)"
      unfolding hmod[symmetric] by (simp add: mod_add_left_eq)
    also have "\<dots> = (if h + 1 = a * b then 0 else h + 1)"
      using h by (auto simp: mod_pos_pos_trivial)
    finally show ?thesis .
  qed
  have F2: "n + 1 - (n + 1) div (a * b) * a * b = (if h + 1 = a * b then 0 else h + 1)"
    unfolding m[symmetric] by (simp add: minus_div_mult_eq_mod[symmetric] mult.assoc)
  have F3: "(if (if h + 1 = a * b then 0 else h + 1) = 0 then a * b
             else (if h + 1 = a * b then 0 else h + 1)) = h + 1"
    using h by auto
  have F4: "\<lfloor>real_of_int (h + 1) / real_of_int a\<rfloor> = (h + 1) div a"
    by (rule floor_divide_of_int_eq)
  have hr: "(h + 1) mod a = (r + 1) mod a"
  proof -
    have "h + 1 = (r + 1) + q * a" by (simp add: h_def)
    then show ?thesis by (simp only: mod_mult_self1)
  qed
  have F5: "h + 1 - (h + 1) div a * a = (r + 1) mod a"
    unfolding hr[symmetric] by (simp add: minus_div_mult_eq_mod[symmetric])
  have nr: "(n + 1) mod a = (r + 1) mod a"
    unfolding r_def by (simp add: mod_add_left_eq)
  have r1: "(r + 1) mod a = (if r + 1 = a then 0 else r + 1)"
    using r by (auto simp: mod_pos_pos_trivial)
  have F6: "(if (r + 1) mod a = 0 then b else (r + 1) mod a) = r + 1"
    using cond r unfolding nr r1 by auto
  have F7: "cdiv (h + 1 - (r + 1)) a = q"
    using a aq by (simp add: h_def cdiv_nonneg)
  have "n + 1 - a * (q + 1 - 1) - 1 = a * b * (n div (a * b)) + r"
    using n_eq by (simp add: h_def)
  moreover have "0 \<le> a * b * (n div (a * b)) + r"
    using n r P by (simp add: pos_imp_zdiv_nonneg_iff)
  moreover have "(a * b * (n div (a * b)) + r) div (a * b) = n div (a * b)"
  proof -
    have "a \<le> a * b" using mult_left_mono[of 1 b a] a b by simp
    then have "r < a * b" using r by linarith
    then have "r div (a * b) = 0" using r by (simp add: div_pos_pos_trivial)
    moreover have "a * b \<noteq> 0" using a b by simp
    then have "(a * b * (n div (a * b)) + r) div (a * b) = n div (a * b) + r div (a * b)"
      by (rule div_mult_self4)
    ultimately show ?thesis by simp
  qed
  ultimately have F8: "cdiv (n + 1 - a * (q + 1 - 1) - 1) (a * b) = n div (a * b)"
    using P by (simp add: cdiv_nonneg)
  have "a * b \<noteq> 0" using a b by simp
  then show ?thesis
    unfolding cellIdxToLogicalCoords_def Let_def g F1 F2 F3 F4 F5 F6 F7 F8
    by (simp add: r_def q_def)
qed


section \<open>Linear cell index to logical coordinates\<close>

text \<open>
  Claim C1. The specification asks that, for a grid of positive sizes, every linear index
  below \<open>nx*ny*nz\<close> is sent to a triple inside the grid, that no two indices share a
  triple, and that a zero remainder of the horizon index modulo \<open>nx\<close> is replaced by
  \<open>nx\<close>. The source replaces it by \<^verbatim>\<open>logical_gridsize_[1]\<close>, which is \<open>ny\<close>.
  On the grid of 2 x 3 x 1 cells the index 1 is sent to \<open>(2, 0, 0)\<close>, whose first
  component is not below \<open>nx = 2\<close>, and the index 3 is sent to the same triple.
  Lemma \<open>cellIdxToLogicalCoords_when_remainder_or_square\<close> shows that the
  conversion is right for every other index, and for all indices when \<open>nx = ny\<close>.
\<close>

theorem cellIdxToLogicalCoords_zero_remainder_uses_ny:
  "cellIdxToLogicalCoords \<lparr>parser = Map.empty, logical_gridsize = (2, 3, 1)\<rparr> 1 = Inr [2, 0, 0] \<and>
   cellIdxToLogicalCoords \<lparr>parser = Map.empty, logical_gridsize = (2, 3, 1)\<rparr> 3 = Inr [2, 0, 0] \<and>
   \<not> in_bounds \<lparr>parser = Map.empty, logical_gridsize = (2, 3, 1)\<rparr> 2 0 0"
  by (simp add: cellIdxToLogicalCoords_def gridsize0_def gridsize1_def gridsize2_def
      cdiv_def in_bounds_def)

section \<open>Corner depths of a cell\<close>

text \<open>
  Claim C6. For a cell inside the grid and a ZCORN array of \<open>8*nx*ny*nz\<close> values,
  \<open>cellZvals\<close> returns the eight values found at the offsets
  \<open>0, stride_i, stride_j, stride_j+stride_i, stride_k, stride_k+stride_i,
  stride_k+stride_j, stride_k+stride_j+stride_i\<close> from the base offset
  \<open>2*(i*stride_i + j*stride_j + k*stride_k)\<close>, in this order, where
  \<open>stride_i = 1\<close>, \<open>stride_j = 2*nx\<close> and \<open>stride_k = 4*nx*ny\<close>.
\<close>

theorem cellZvals_offsets:
  assumes "in_bounds insp i j k"
    and "getFloatingPointValue (parser insp) ''ZCORN'' = Inr z"
    and "int (length z) = 8 * (gridsize0 insp * gridsize1 insp * gridsize2 insp)"
  shows "cellZvals insp i j k = Inr (spec_cellCorners z (gridsize0 insp) (gridsize1 insp) i j k)"
  using assms by (rule cellZvals_ok)

theorem cellZvals_offsets_witness:
  "in_bounds demo_inspector 1 0 0 \<and>
   getFloatingPointValue (parser demo_inspector) ''ZCORN'' = Inr demo_zcorn \<and>
   cellZvals demo_inspector 1 0 0 = Inr [1, 2, 3, 4, 11, 12, 13, 14]"
proof -
  have h1: "in_bounds demo_inspector 1 0 0"
    by (simp add: demo_defs)
  have h2: "getFloatingPointValue (parser demo_inspector) ''ZCORN'' = Inr demo_zcorn"
    by (simp add: demo_defs)
  have h3: "int (length demo_zcorn) =
      8 * (gridsize0 demo_inspector * gridsize1 demo_inspector * gridsize2 demo_inspector)"
    by (simp add: demo_defs)
  have "spec_cellCorners demo_zcorn (gridsize0 demo_inspector) (gridsize1 demo_inspector) 1 0 0
          = [1, 2, 3, 4, 11, 12, 13, 14]"
    by (simp add: spec_cellCorners_def zcorn_base_offset_def zcorn_corner_offsets_def demo_defs)
  with cellZvals_offsets[OF h1 h2 h3] h1 h2 show ?thesis by simp
qed

section \<open>Cell volume\<close>

text \<open>
  Claim C5, as stated, asks for the volume to be the product of a non-negative area, half
  the magnitude of the cross product of the diagonals, and the mean height. On the
  mirrored cell the source returns \<open>-1\<close> where that product is \<open>1\<close>.
\<close>

theorem cellVolume_magnitude_counterexample:
  "in_bounds mirror_inspector 0 0 0 \<and>
   cellVolumeVerticalPillars mirror_inspector 0 0 0 = Inr (- 1) \<and>
   spec_claimed_area mirror_coord 1 0 0 *
     spec_average_height (spec_cellCorners mirror_zcorn 1 1 0 0 0) = 1"
  by (simp add: cellVolumeVerticalPillars_def checkLogicalCoords_def demo_defs vec_at_def
      spec_claimed_area_def spec_diagonal_cross_def cell_pillars_def cross2_def
      spec_average_height_def z_edges_def corner_defs pillar_top_x_def pillar_top_y_def
      pillar_index_def spec_cellCorners_def zcorn_base_offset_def zcorn_corner_offsets_def)

text \<open>
  Claim C5, amended. For a cell inside the grid, with COORD of \<open>6*(nx+1)*(ny+1)\<close>
  values and ZCORN of \<open>8*nx*ny*nz\<close> values, the volume is the product of half the
  signed 2-D cross product of the diagonals \<open>p3 - p0\<close> and \<open>p2 - p1\<close> of the four
  pillar tops and the mean of the four depth differences LLL to LLH, HLL to HLH,
  LHL to LHH and HHL to HHH. The area factor is negative when the pillar tops run
  clockwise.
\<close>

theorem cellVolume_signed_area:
  assumes "in_bounds insp i j k"
    and "getFloatingPointValue (parser insp) ''COORD'' = Inr pillc"
    and "int (length pillc) = 6 * ((gridsize0 insp + 1) * (gridsize1 insp + 1))"
    and "getFloatingPointValue (parser insp) ''ZCORN'' = Inr z"
    and "int (length z) = 8 * (gridsize0 insp * gridsize1 insp * gridsize2 insp)"
  shows "cellVolumeVerticalPillars insp i j k =
     Inr (signed_area pillc (gridsize0 insp) i j *
          spec_average_height (spec_cellCorners z (gridsize0 insp) (gridsize1 insp) i j k))"
  using assms by (rule cellVolumeVerticalPillars_reads)

theorem cellVolume_signed_area_witness:
  "in_bounds demo_inspector 1 0 0 \<and>
   getFloatingPointValue (parser demo_inspector) ''COORD'' = Inr demo_coord \<and>
   getFloatingPointValue (parser demo_inspector) ''ZCORN'' = Inr demo_zcorn \<and>
   signed_area demo_coord 2 1 0 = 2 \<and>
   spec_average_height (spec_cellCorners demo_zcorn 2 1 1 0 0) = 10 \<and>
   cellVolumeVerticalPillars demo_inspector 1 0 0 = Inr 20"
proof -
  have h1: "in_bounds demo_inspector 1 0 0"
    by (simp add: demo_defs)
  have h2: "getFloatingPointValue (parser demo_inspector) ''COORD'' = Inr demo_coord"
    by (simp add: demo_defs)
  have h3: "int (length demo_coord) =
      6 * ((gridsize0 demo_inspector + 1) * (gridsize1 demo_inspector + 1))"
    by (simp add: demo_defs)
  have h4: "getFloatingPointValue (parser demo_inspector) ''ZCORN'' = Inr demo_zcorn"
    by (simp add: demo_defs)
  have h5: "int (length demo_zcorn) =
      8 * (gridsize0 demo_inspector * gridsize1 demo_inspector * gridsize2 demo_inspector)"
    by (simp add: demo_defs)
  have g: "gridsize0 demo_inspector = 2" "gridsize1 demo_inspector = 1"
    by (simp_all add: demo_defs)
  have a: "signed_area demo_coord 2 1 0 = 2"
    by (simp add: signed_area_def spec_diagonal_cross_def cell_pillars_def cross2_def
        pillar_top_x_def pillar_top_y_def pillar_index_def demo_coord_def)
  have b: "spec_average_height (spec_cellCorners demo_zcorn 2 1 1 0 0) = 10"
    by (simp add: spec_average_height_def z_edges_def corner_defs spec_cellCorners_def
        zcorn_base_offset_def zcorn_corner_offsets_def demo_zcorn_def)
  from cellVolume_signed_area[OF h1 h2 h3 h4 h5]
  have "cellVolumeVerticalPillars demo_inspector 1 0 0 = Inr 20"
    unfolding g a b by simp
  with h1 h2 h4 a b show ?thesis by simp
qed

section \<open>Dips\<close>

text \<open>
  Claim C7. For a cell inside the grid, with COORD and ZCORN of the right sizes and
  nonzero pillar spacings, the x-dip is the mean of \<open>(z_high - z_low) / cell_xlength\<close>
  over the corner pairs LLL to HLL, LHL to HHL, LLH to HLH and LHH to HHH, and the
  y-dip is the mean of \<open>(z_high - z_low) / cell_ylength\<close> over the pairs LLL to LHL,
  HLL to HHL, LLH to LHH and HLH to HHH; both spacings are differences of pillar top
  coordinates.
\<close>

theorem cellDips_mean_rise_over_run:
  assumes "in_bounds insp i j k"
    and "getFloatingPointValue (parser insp) ''COORD'' = Inr pillc"
    and "int (length pillc) = 6 * ((gridsize0 insp + 1) * (gridsize1 insp + 1))"
    and "getFloatingPointValue (parser insp) ''ZCORN'' = Inr z"
    and "int (length z) = 8 * (gridsize0 insp * gridsize1 insp * gridsize2 insp)"
    and "spec_cell_xlength pillc (gridsize0 insp) i j \<noteq> 0"
    and "spec_cell_ylength pillc (gridsize0 insp) i j \<noteq> 0"
  shows "cellDips insp i j k =
     Inr (Finite (spec_dip x_edges (spec_cellCorners z (gridsize0 insp) (gridsize1 insp) i j k)
            (spec_cell_xlength pillc (gridsize0 insp) i j)),
          Finite (spec_dip y_edges (spec_cellCorners z (gridsize0 insp) (gridsize1 insp) i j k)
            (spec_cell_ylength pillc (gridsize0 insp) i j)))"
  using cellDips_reads[OF assms(1-5)] assms(6,7) by (simp add: Let_def)

theorem cellDips_mean_rise_over_run_witness:
  "in_bounds demo_inspector 1 0 0 \<and>
   getFloatingPointValue (parser demo_inspector) ''COORD'' = Inr demo_coord \<and>
   getFloatingPointValue (parser demo_inspector) ''ZCORN'' = Inr demo_zcorn \<and>
   spec_cell_xlength demo_coord 2 1 0 = 2 \<and>
   spec_cell_ylength demo_coord 2 1 0 = 1 \<and>
   cellDips demo_inspector 1 0 0 = Inr (Finite (1 / 2), Finite 2)"
proof -
  have h1: "in_bounds demo_inspector 1 0 0"
    by (simp add: demo_defs)
  have h2: "getFloatingPointValue (parser demo_inspector) ''COORD'' = Inr demo_coord"
    by (simp add: demo_defs)
  have h3: "int (length demo_coord) =
      6 * ((gridsize0 demo_inspector + 1) * (gridsize1 demo_inspector + 1))"
    by (simp add: demo_defs)
  have h4: "getFloatingPointValue (parser demo_inspector) ''ZCORN'' = Inr demo_zcorn"
    by (simp add: demo_defs)
  have h5: "int (length demo_zcorn) =
      8 * (gridsize0 demo_inspector * gridsize1 demo_inspector * gridsize2 demo_inspector)"
    by (simp add: demo_defs)
  have g: "gridsize0 demo_inspector = 2" "gridsize1 demo_inspector = 1"
    by (simp_all add: demo_defs)
  have xl: "spec_cell_xlength demo_coord 2 1 0 = 2"
    by (simp add: spec_cell_xlength_def pillar_top_x_def pillar_index_def demo_coord_def)
  have yl: "spec_cell_ylength demo_coord 2 1 0 = 1"
    by (simp add: spec_cell_ylength_def pillar_top_y_def pillar_index_def demo_coord_def)
  have cz: "spec_cellCorners demo_zcorn 2 1 1 0 0 = [1, 2, 3, 4, 11, 12, 13, 14]"
    by (simp add: spec_cellCorners_def zcorn_base_offset_def zcorn_corner_offsets_def
        demo_zcorn_def)
  have h6: "spec_cell_xlength demo_coord (gridsize0 demo_inspector) 1 0 \<noteq> 0"
    unfolding g xl by simp
  have h7: "spec_cell_ylength demo_coord (gridsize0 demo_inspector) 1 0 \<noteq> 0"
    unfolding g yl by simp
  from cellDips_mean_rise_over_run[OF h1 h2 h3 h4 h5 h6 h7]
  have "cellDips demo_inspector 1 0 0 = Inr (Finite (1 / 2), Finite 2)"
    unfolding g xl yl cz by (simp add: spec_dip_def x_edges_def y_edges_def corner_defs)
  with h1 h2 h4 xl yl show ?thesis by simp
qed



section \<open>Construction\<close>

text \<open>
  Claim C8. Construction fails with a configuration error exactly when COORD or ZCORN is
  absent, or SPECGRID and DIMENS are both absent. When SPECGRID is present (with DIMENS
  or without it) the grid size is the three dimensions of the SPECGRID record; when
  SPECGRID is absent it is the DIMENS triple.
\<close>

theorem construction_sources:
  "fails_with is_configuration_error (new_EclipseGridInspector p) =
     (\<not> hasField p ''COORD'' \<or> \<not> hasField p ''ZCORN'' \<or>
      (\<not> hasField p ''SPECGRID'' \<and> \<not> hasField p ''DIMENS'')) \<and>
   (hasField p ''COORD'' \<and> hasField p ''ZCORN'' \<and>
    p ''SPECGRID'' = Some (SpecgridField sgr) \<and> dimensions sgr = [a, b, c] \<longrightarrow>
      new_EclipseGridInspector p = Inr \<lparr>parser = p, logical_gridsize = (a, b, c)\<rparr>) \<and>
   (hasField p ''COORD'' \<and> hasField p ''ZCORN'' \<and>
    p ''SPECGRID'' = None \<and> p ''DIMENS'' = Some (IntegerField [a, b, c]) \<longrightarrow>
      new_EclipseGridInspector p = Inr \<lparr>parser = p, logical_gridsize = (a, b, c)\<rparr>)"
proof (intro conjI impI)
  show "fails_with is_configuration_error (new_EclipseGridInspector p) =
     (\<not> hasField p ''COORD'' \<or> \<not> hasField p ''ZCORN'' \<or>
      (\<not> hasField p ''SPECGRID'' \<and> \<not> hasField p ''DIMENS''))"
    by (rule new_EclipseGridInspector_config_error)
next
  assume "hasField p ''COORD'' \<and> hasField p ''ZCORN'' \<and>
    p ''SPECGRID'' = Some (SpecgridField sgr) \<and> dimensions sgr = [a, b, c]"
  then show "new_EclipseGridInspector p = Inr \<lparr>parser = p, logical_gridsize = (a, b, c)\<rparr>"
    by (simp add: new_EclipseGridInspector_def parser_defs vec_at_def)
next
  assume "hasField p ''COORD'' \<and> hasField p ''ZCORN'' \<and>
    p ''SPECGRID'' = None \<and> p ''DIMENS'' = Some (IntegerField [a, b, c])"
  then show "new_EclipseGridInspector p = Inr \<lparr>parser = p, logical_gridsize = (a, b, c)\<rparr>"
    by (simp add: new_EclipseGridInspector_def parser_defs vec_at_def)
qed

theorem construction_sources_witness:
  "new_EclipseGridInspector square_parser = Inr square_inspector \<and>
   new_EclipseGridInspector dimens_parser =
     Inr \<lparr>parser = dimens_parser, logical_gridsize = (0, - 1, 5)\<rparr> \<and>
   fails_with is_configuration_error
     (new_EclipseGridInspector [''COORD'' \<mapsto> FloatingPointField [],
                                ''SPECGRID'' \<mapsto> SpecgridField \<lparr>dimensions = [1, 1, 1]\<rparr>]) \<and>
   fails_with is_configuration_error
     (new_EclipseGridInspector [''COORD'' \<mapsto> FloatingPointField [],
                                ''ZCORN'' \<mapsto> FloatingPointField []])"
proof -
  have a: "hasField square_parser ''COORD'' \<and> hasField square_parser ''ZCORN'' \<and>
      square_parser ''SPECGRID'' = Some (SpecgridField \<lparr>dimensions = [2, 2, 1]\<rparr>) \<and>
      dimensions \<lparr>dimensions = [2, 2, 1]\<rparr> = [2, 2, 1]"
    by (simp add: square_parser_def hasField_def)
  have b: "hasField dimens_parser ''COORD'' \<and> hasField dimens_parser ''ZCORN'' \<and>
      dimens_parser ''SPECGRID'' = None \<and>
      dimens_parser ''DIMENS'' = Some (IntegerField [0, - 1, 5])"
    by (simp add: dimens_parser_def hasField_def)
  have c: "\<not> hasField [''COORD'' \<mapsto> FloatingPointField [],
                        ''SPECGRID'' \<mapsto> SpecgridField \<lparr>dimensions = [1, 1, 1]\<rparr>] ''ZCORN''"
    by (simp add: hasField_def)
  have d: "\<not> hasField [''COORD'' \<mapsto> FloatingPointField [],
                        ''ZCORN'' \<mapsto> FloatingPointField []] ''SPECGRID'' \<and>
           \<not> hasField [''COORD'' \<mapsto> FloatingPointField [],
                        ''ZCORN'' \<mapsto> FloatingPointField []] ''DIMENS''"
    by (simp add: hasField_def)
  from construction_sources[of square_parser "\<lparr>dimensions = [2, 2, 1]\<rparr>" 2 2 1,
      THEN conjunct2, THEN conjunct1] a
  have 1: "new_EclipseGridInspector square_parser = Inr square_inspector"
    by (simp add: square_inspector_def)
  from construction_sources[of dimens_parser undefined 0 "- 1" 5,
      THEN conjunct2, THEN conjunct2] b
  have 2: "new_EclipseGridInspector dimens_parser =
     Inr \<lparr>parser = dimens_parser, logical_gridsize = (0, - 1, 5)\<rparr>"
    by simp
  from construction_sources[of "[''COORD'' \<mapsto> FloatingPointField [],
        ''SPECGRID'' \<mapsto> SpecgridField \<lparr>dimensions = [1, 1, 1]\<rparr>]" undefined 0 0 0,
      THEN conjunct1] c
  have 3: "fails_with is_configuration_error
     (new_EclipseGridInspector [''COORD'' \<mapsto> FloatingPointField [],
                                ''SPECGRID'' \<mapsto> SpecgridField \<lparr>dimensions = [1, 1, 1]\<rparr>])"
    by simp
  from construction_sources[of "[''COORD'' \<mapsto> FloatingPointField [],
        ''ZCORN'' \<mapsto> FloatingPointField []]" undefined 0 0 0, THEN conjunct1] d
  have 4: "fails_with is_configuration_error
     (new_EclipseGridInspector [''COORD'' \<mapsto> FloatingPointField [],
                                ''ZCORN'' \<mapsto> FloatingPointField []])"
    by simp
  show ?thesis by (rule conjI[OF 1 conjI[OF 2 conjI[OF 3 4]]])
qed



text \<open>
  Claim C9, as stated, asks construction to fail when a dimension is zero or negative.
  The source has no such test: the DIMENS integers \<open>0, -1, 5\<close> are stored as they are.
\<close>

theorem construction_accepts_nonpositive_size_counterexample:
  "new_EclipseGridInspector dimens_parser =
     Inr \<lparr>parser = dimens_parser, logical_gridsize = (0, - 1, 5)\<rparr>"
  by (simp add: new_EclipseGridInspector_def dimens_parser_def parser_defs vec_at_def)



text \<open>
  Claim C9, amended. Construction does not inspect the values of the dimensions: when
  COORD and ZCORN are present and the dimension source delivers at least three integers,
  construction succeeds and stores the first three unchanged, so the stored size has
  three strictly positive components exactly when the source triple has.
\<close>

theorem construction_stores_source_triple:
  assumes "hasField p ''COORD''" and "hasField p ''ZCORN''"
    and "dimension_source p = Inr d" and "3 \<le> length d"
  shows "new_EclipseGridInspector p = Inr \<lparr>parser = p, logical_gridsize = (d ! 0, d ! 1, d ! 2)\<rparr> \<and>
         (0 < gridsize0 \<lparr>parser = p, logical_gridsize = (d ! 0, d ! 1, d ! 2)\<rparr> \<and>
          0 < gridsize1 \<lparr>parser = p, logical_gridsize = (d ! 0, d ! 1, d ! 2)\<rparr> \<and>
          0 < gridsize2 \<lparr>parser = p, logical_gridsize = (d ! 0, d ! 1, d ! 2)\<rparr>) =
         (0 < d ! 0 \<and> 0 < d ! 1 \<and> 0 < d ! 2)"
proof -
  have r: "vec_reads d [0, 1, 2] = Inr [d ! 0, d ! 1, d ! 2]"
    using assms(4) by (auto simp: vec_at_def)
  have "new_EclipseGridInspector p = Inr \<lparr>parser = p, logical_gridsize = (d ! 0, d ! 1, d ! 2)\<rparr>"
  proof (cases "hasField p ''SPECGRID''")
    case True
    with assms(3) obtain sgr where "getSPECGRID p = Inr sgr" "dimensions sgr = d"
      by (auto simp: dimension_source_def bind_err_def split: sum.splits)
    with True assms(1,2) r show ?thesis
      by (simp add: new_EclipseGridInspector_def hasFields_def del: vec_reads.simps)
  next
    case False
    with assms(3) have g: "getIntegerValue p ''DIMENS'' = Inr d"
      by (simp add: dimension_source_def)
    then have "hasField p ''DIMENS''"
      by (auto simp: getIntegerValue_def hasField_def split: option.splits)
    with False g assms(1,2) r show ?thesis
      by (simp add: new_EclipseGridInspector_def hasFields_def del: vec_reads.simps)
  qed
  then show ?thesis
    by (simp add: gridsize0_def gridsize1_def gridsize2_def)
qed

theorem construction_stores_source_triple_witness:
  "dimension_source square_parser = Inr [2, 2, 1] \<and>
   new_EclipseGridInspector square_parser = Inr square_inspector"
proof -
  have h1: "hasField square_parser ''COORD''" and h2: "hasField square_parser ''ZCORN''"
    by (simp_all add: square_parser_def hasField_def)
  have h3: "dimension_source square_parser = Inr [2, 2, 1]"
    by (simp add: dimension_source_def square_parser_def hasField_def getSPECGRID_def)
  have h4: "3 \<le> length [2::int, 2, 1]" by simp
  have e: "([2::int, 2, 1] ! 0, [2::int, 2, 1] ! 1, [2::int, 2, 1] ! 2) = (2, 2, 1)" by simp
  from construction_stores_source_triple[OF h1 h2 h3 h4, THEN conjunct1]
  have "new_EclipseGridInspector square_parser = Inr square_inspector"
    unfolding e square_inspector_def .
  with h3 show ?thesis by (rule conjI)
qed

section \<open>Rejection of coordinates outside the grid\<close>

text \<open>
  Claim C2. The specification asks each of \<open>cellVolume\<close>, \<open>cellDips\<close> and
  \<open>cellCorners\<close> to fail with the out-of-bounds error of the offending axis, before any
  array is read, when a coordinate is outside the grid. \<open>cellVolumeVerticalPillars\<close>
  and \<open>cellDips\<close> do so (lemmas \<open>cellVolume_out_of_bounds\<close> and
  \<open>cellDips_out_of_bounds\<close>), but \<open>cellZvals\<close> never calls
  \<open>checkLogicalCoords\<close>. On the grid of 2 x 2 x 1 cells the call with \<open>i = 2\<close>
  returns eight depths that belong to three other cells, and the call with \<open>i = -1\<close>
  reads in front of the array.
\<close>

theorem cellZvals_unchecked_coordinates:
  "\<not> in_bounds square_inspector 2 0 0 \<and>
   cellZvals square_inspector 2 0 0 = Inr [120, 125, 108, 113, 104, 109, 124, 129] \<and>
   cellZvals square_inspector (- 1) 0 0 = Inl UndefinedBehaviour"
  by (simp add: cellZvals_def square_inspector_def square_parser_def square_zcorn_def
      demo_defs vec_at_def)


section \<open>Validation of the array sizes\<close>

text \<open>
  Claim C4. The specification asks every query that uses COORD or ZCORN, \<open>gridLimits\<close>
  among them, to validate on each call the length of the array it has fetched and to
  fail with a size-mismatch error when the length disagrees with the grid size.
  \<open>cellVolumeVerticalPillars\<close>, \<open>cellDips\<close> and \<open>cellZvals\<close> do so (lemmas
  \<open>checked_queries_size_mismatch\<close> and \<open>cellZvals_size_mismatch\<close>), but
  \<open>getGridLimits\<close> compares no length at all before it indexes COORD and scans
  ZCORN. On the grid of 2 x 1 x 1 cells with a COORD array of 35 values in place of 36
  it returns the extents, and so it does with a ZCORN array of 15 values in place of 16.
\<close>

theorem getGridLimits_no_size_check:
  "getFloatingPointValue (parser short_coord_inspector) ''COORD'' = Inr (butlast demo_coord) \<and>
   int (length (butlast demo_coord)) \<noteq>
     6 * ((gridsize0 short_coord_inspector + 1) * (gridsize1 short_coord_inspector + 1)) \<and>
   getGridLimits short_coord_inspector = Inr [0, 4, 0, 1, 0, 14] \<and>
   getFloatingPointValue (parser short_zcorn_inspector) ''ZCORN'' = Inr (butlast demo_zcorn) \<and>
   int (length (butlast demo_zcorn)) \<noteq>
     8 * (gridsize0 short_zcorn_inspector * gridsize1 short_zcorn_inspector *
          gridsize2 short_zcorn_inspector) \<and>
   getGridLimits short_zcorn_inspector = Inr [0, 4, 0, 1, 0, 13]"
proof -
  have lim: "- DBL_MAX < 0" "0 < DBL_MAX" "- DBL_MAX < 1" "1 < DBL_MAX" "- DBL_MAX < 2"
    "2 < DBL_MAX" "- DBL_MAX < 4" "4 < DBL_MAX"
    using DBL_MAX_large by simp_all
  have a: "getGridLimits short_coord_inspector = Inr [0, 4, 0, 1, 0, 14]"
    by (simp add: getGridLimits_def getGridLimits_loop.simps getGridLimits_body_def
        short_coord_inspector_def demo_defs vec_at_def lim)
  have b: "getGridLimits short_zcorn_inspector = Inr [0, 4, 0, 1, 0, 13]"
    by (simp add: getGridLimits_def getGridLimits_loop.simps getGridLimits_body_def
        short_zcorn_inspector_def demo_defs vec_at_def lim)
  show ?thesis
    using a b by (simp add: short_coord_inspector_def short_zcorn_inspector_def demo_defs)
qed


section \<open>Grid extents\<close>

text \<open>
  Claim C3, as stated, says that only the top \<open>(x, y)\<close> of each pillar enters the
  horizontal extents. The loop of the source also compares the values at offsets 3 and 4
  of each pillar, its bottom \<open>x\<close> and \<open>y\<close>. On the leaning cell the largest top
  \<open>x\<close> is 1 and the smallest top \<open>y\<close> is 0, and the source returns
  \<open>xmax = 3\<close> and \<open>ymin = -2\<close>.
\<close>

theorem getGridLimits_scans_bottom_counterexample:
  "getGridLimits leaning_inspector = Inr [0, 3, - 2, 1, 0, 1] \<and>
   Max (set (pillar_top_xs leaning_coord 4)) = 1 \<and>
   Min (set (pillar_top_ys leaning_coord 4)) = 0"
proof -
  have sg: "hasField (parser leaning_inspector) ''SPECGRID''"
    and c: "getFloatingPointValue (parser leaning_inspector) ''COORD'' = Inr leaning_coord"
    and z: "getFloatingPointValue (parser leaning_inspector) ''ZCORN'' = Inr mirror_zcorn"
    and g: "gridsize0 leaning_inspector = 1" "gridsize1 leaning_inspector = 1"
    by (simp_all add: leaning_inspector_def demo_defs)
  have nx: "0 \<le> gridsize0 leaning_inspector" and ny: "0 \<le> gridsize1 leaning_inspector"
    by (simp_all add: g)
  have len: "6 * ((gridsize0 leaning_inspector + 1) * (gridsize1 leaning_inspector + 1))
      \<le> int (length leaning_coord)"
    by (simp add: g leaning_coord_def)
  have zne: "mirror_zcorn \<noteq> []"
    by (simp add: mirror_zcorn_def)
  have fin: "\<forall>v \<in> set leaning_coord. \<bar>v\<bar> \<le> DBL_MAX"
    using DBL_MAX_large by (simp add: leaning_coord_def)
  have n: "nat ((gridsize0 leaning_inspector + 1) * (gridsize1 leaning_inspector + 1)) = 4"
    by (simp add: g)
  have xs: "pillar_end_xs leaning_coord 0 4 = [0, 0, 1, 3, 0, 0, 1, 1]"
    and ys: "pillar_end_ys leaning_coord 0 4 = [0, 0, 0, - 2, 1, 1, 1, 1]"
    by (simp_all add: pillar_end_xs_def pillar_end_ys_def upt_4 leaning_coord_def)
  have "getGridLimits leaning_inspector = Inr [0, 3, - 2, 1, 0, 1]"
    unfolding getGridLimits_ok[OF sg c z nx ny len zne fin] n Let_def xs ys
    by (simp add: mirror_zcorn_def)
  moreover have "Max (set (pillar_top_xs leaning_coord 4)) = 1"
    "Min (set (pillar_top_ys leaning_coord 4)) = 0"
    by (simp_all add: pillar_top_xs_def pillar_top_ys_def upt_4 leaning_coord_def)
  ultimately show ?thesis by simp
qed

text \<open>
  Claim C3, amended. With SPECGRID, COORD and ZCORN present, at least one pillar, COORD
  holding the six values of each of the \<open>(nx+1)*(ny+1)\<close> pillars, every COORD value
  finite and ZCORN not empty, \<open>getGridLimits\<close> returns the minimum and the maximum of
  the top and bottom \<open>x\<close> of all pillars, the minimum and the maximum of their top and
  bottom \<open>y\<close>, and the minimum and the maximum of the entire ZCORN array.
\<close>

theorem getGridLimits_extents:
  assumes "hasField (parser insp) ''SPECGRID''"
    and "getFloatingPointValue (parser insp) ''COORD'' = Inr coord"
    and "getFloatingPointValue (parser insp) ''ZCORN'' = Inr zcorn"
    and "0 \<le> gridsize0 insp" and "0 \<le> gridsize1 insp"
    and "6 * ((gridsize0 insp + 1) * (gridsize1 insp + 1)) \<le> int (length coord)"
    and "zcorn \<noteq> []"
    and "\<forall>v \<in> set coord. \<bar>v\<bar> \<le> DBL_MAX"
  shows "getGridLimits insp =
     (let pillars = nat ((gridsize0 insp + 1) * (gridsize1 insp + 1));
          xs = pillar_end_xs coord 0 pillars;
          ys = pillar_end_ys coord 0 pillars
      in Inr [Min (set xs), Max (set xs), Min (set ys), Max (set ys),
              Min (set zcorn), Max (set zcorn)])"
  using assms by (rule getGridLimits_ok)

theorem getGridLimits_extents_witness:
  "hasField (parser square_inspector) ''SPECGRID'' \<and>
   getFloatingPointValue (parser square_inspector) ''COORD'' = Inr square_coord \<and>
   getFloatingPointValue (parser square_inspector) ''ZCORN'' = Inr square_zcorn \<and>
   Max (set square_coord) \<le> DBL_MAX \<and> - DBL_MAX \<le> Min (set square_coord) \<and>
   getGridLimits square_inspector = Inr [0, 10, 0, 10, 100, 131]"
proof -
  have sg: "hasField (parser square_inspector) ''SPECGRID''"
    and c: "getFloatingPointValue (parser square_inspector) ''COORD'' = Inr square_coord"
    and z: "getFloatingPointValue (parser square_inspector) ''ZCORN'' = Inr square_zcorn"
    and g: "gridsize0 square_inspector = 2" "gridsize1 square_inspector = 2"
    by (simp_all add: demo_defs)
  have nx: "0 \<le> gridsize0 square_inspector" and ny: "0 \<le> gridsize1 square_inspector"
    by (simp_all add: g)
  have len: "6 * ((gridsize0 square_inspector + 1) * (gridsize1 square_inspector + 1))
      \<le> int (length square_coord)"
    by (simp add: g square_coord_def)
  have zne: "square_zcorn \<noteq> []"
    by (simp add: square_zcorn_def)
  have fin: "\<forall>v \<in> set square_coord. \<bar>v\<bar> \<le> DBL_MAX"
    using DBL_MAX_large by (simp add: square_coord_def)
  have n: "nat ((gridsize0 square_inspector + 1) * (gridsize1 square_inspector + 1)) = 9"
    by (simp add: g)
  have xs: "pillar_end_xs square_coord 0 9 =
      [0, 0, 5, 5, 10, 10, 0, 0, 5, 5, 10, 10, 0, 0, 5, 5, 10, 10]"
    and ys: "pillar_end_ys square_coord 0 9 =
      [0, 0, 0, 0, 0, 0, 5, 5, 5, 5, 5, 5, 10, 10, 10, 10, 10, 10]"
    by (simp_all add: pillar_end_xs_def pillar_end_ys_def upt_9 square_coord_def)
  have "getGridLimits square_inspector = Inr [0, 10, 0, 10, 100, 131]"
    unfolding getGridLimits_extents[OF sg c z nx ny len zne fin] n Let_def xs ys
    by (simp add: square_zcorn_def)
  moreover have "Max (set square_coord) \<le> DBL_MAX" "- DBL_MAX \<le> Min (set square_coord)"
    using DBL_MAX_large by (simp_all add: square_coord_def)
  ultimately show ?thesis using sg c z by simp
qed


end
